theory Spec2Isabelle
  imports Main
begin

section \<open>The sandbox child: values and the result sanitizer\<close>

text \<open>
  Python values as the sandbox child sees them. A float is either finite (a mantissa and
  a binary exponent; only its finiteness and its being zero are ever inspected) or one of
  the three non-finite values. \<open>PObject n\<close> stands for any object of another type,
  told apart by its identity \<open>n\<close>. A dictionary is kept as its items in insertion order.
\<close>

datatype pyfloat = Finite int int | PosInf | NegInf | NaN

datatype pykey = KNone | KStr string | KBool bool | KInt int | KFloat pyfloat | KOther nat

datatype pyval =
    PNone
  | PStr string
  | PBool bool
  | PInt int
  | PFloat pyfloat
  | PList "pyval list"
  | PTuple "pyval list"
  | PDict "(pykey \<times> pyval) list"
  | PObject nat

text \<open>\<^verbatim>\<open>UNSUPPORTED = object()\<close>: the module's sentinel, one particular object.\<close>

definition UNSUPPORTED :: pyval where
  "UNSUPPORTED = PObject 0"

text \<open>\<^verbatim>\<open>math.isfinite\<close> and \<^verbatim>\<open>isinstance(key, str)\<close>.\<close>

fun isfinite :: "pyfloat \<Rightarrow> bool" where
  "isfinite (Finite m e) = True"
| "isfinite PosInf = False"
| "isfinite NegInf = False"
| "isfinite NaN = False"

fun is_str_key :: "pykey \<Rightarrow> bool" where
  "is_str_key (KStr s) = True"
| "is_str_key k = False"

text \<open>
  \<^verbatim>\<open>result[key] = value\<close> on a dictionary: an existing key keeps its place and takes
  the new value, a new key is appended.
\<close>

fun dict_set :: "('k \<times> 'v) list \<Rightarrow> 'k \<Rightarrow> 'v \<Rightarrow> ('k \<times> 'v) list" where
  "dict_set [] k v = [(k, v)]"
| "dict_set ((k', v') # rest) k v =
     (if k' = k then (k, v) # rest else (k', v') # dict_set rest k v)"

text \<open>
  The two loops of \<^verbatim>\<open>to_json_value\<close>, run over the already converted entries: the
  list loop appends every converted entry that is not the sentinel, the dict loop stores
  every converted value that sits under a string key and is not the sentinel.
\<close>

fun append_supported :: "pyval list \<Rightarrow> pyval list \<Rightarrow> pyval list" where
  "append_supported result [] = result"
| "append_supported result (converted # rest) =
     (if converted \<noteq> UNSUPPORTED then append_supported (result @ [converted]) rest
      else append_supported result rest)"

fun store_supported :: "(pykey \<times> pyval) list \<Rightarrow> (pykey \<times> pyval) list \<Rightarrow> (pykey \<times> pyval) list" where
  "store_supported result [] = result"
| "store_supported result ((key, converted) # rest) =
     (if is_str_key key
      then (if converted \<noteq> UNSUPPORTED then store_supported (dict_set result key converted) rest
            else store_supported result rest)
      else store_supported result rest)"

text \<open>\<^verbatim>\<open>to_json_value\<close> (pythonChild.py, lines 63-89), branch by branch.\<close>

primrec to_json_value :: "pyval \<Rightarrow> pyval" where
  "to_json_value PNone = PNone"
| "to_json_value (PStr s) = PStr s"
| "to_json_value (PBool b) = PBool b"
| "to_json_value (PInt i) = PInt i"
| "to_json_value (PFloat f) = (if isfinite f then PFloat f else UNSUPPORTED)"
| "to_json_value (PList entries) = PList (append_supported [] (map to_json_value entries))"
| "to_json_value (PTuple entries) = PList (append_supported [] (map to_json_value entries))"
| "to_json_value (PDict items) =
     PDict (store_supported [] (map (map_prod id to_json_value) items))"
| "to_json_value (PObject n) = UNSUPPORTED"

section \<open>Errors, truthiness and the JSON round trip\<close>

text \<open>
  The exceptions the modelled code raises, each with its message. A raise is the
  \<open>Inl\<close> branch of a sum, or the \<open>Some\<close> of an optional error beside the state.
\<close>

datatype error = PermissionError string | TypeError string | RuntimeError string

text \<open>
  Python truthiness, as used by \<^verbatim>\<open>x or default\<close> and \<^verbatim>\<open>if x:\<close>.
\<close>

fun truthy :: "pyval \<Rightarrow> bool" where
  "truthy PNone = False"
| "truthy (PStr s) = (s \<noteq> [])"
| "truthy (PBool b) = b"
| "truthy (PInt i) = (i \<noteq> 0)"
| "truthy (PFloat (Finite m e)) = (m \<noteq> 0)"
| "truthy (PFloat f) = True"
| "truthy (PList xs) = (xs \<noteq> [])"
| "truthy (PTuple xs) = (xs \<noteq> [])"
| "truthy (PDict items) = (items \<noteq> [])"
| "truthy (PObject n) = True"

text \<open>
  Decimal text of an integer: what \<^verbatim>\<open>json.dumps\<close> writes for an integer key.
\<close>

fun str_of_nat :: "nat \<Rightarrow> string" where
  "str_of_nat n =
     (if n < 10 then [char_of (48 + n)]
      else str_of_nat (n div 10) @ [char_of (48 + n mod 10)])"

definition str_of_int :: "int \<Rightarrow> string" where
  "str_of_int i = (if i < 0 then ''-'' @ str_of_nat (nat (- i)) else str_of_nat (nat i))"

text \<open>
  \<^verbatim>\<open>json.dumps\<close> coerces the keys of a mapping to strings: a string stays, a float
  is written by the encoder (the text of a finite float is a parameter \<open>frepr\<close>, the
  three non-finite ones have fixed names), booleans, \<^verbatim>\<open>None\<close> and integers have
  their JSON text, and any other key raises \<^verbatim>\<open>TypeError\<close>.
\<close>

fun floatstr :: "(pyfloat \<Rightarrow> string) \<Rightarrow> pyfloat \<Rightarrow> string" where
  "floatstr frepr NaN = ''NaN''"
| "floatstr frepr PosInf = ''Infinity''"
| "floatstr frepr NegInf = ''-Infinity''"
| "floatstr frepr (Finite m e) = frepr (Finite m e)"

fun json_key :: "(pyfloat \<Rightarrow> string) \<Rightarrow> pykey \<Rightarrow> string option" where
  "json_key frepr (KStr s) = Some s"
| "json_key frepr (KFloat f) = Some (floatstr frepr f)"
| "json_key frepr (KBool b) = Some (if b then ''true'' else ''false'')"
| "json_key frepr KNone = Some ''null''"
| "json_key frepr (KInt i) = Some (str_of_int i)"
| "json_key frepr (KOther n) = None"

text \<open>
  \<^verbatim>\<open>json.loads(json.dumps(value))\<close>. The values are encoded and decoded one by
  one; \<open>None\<close> is the \<^verbatim>\<open>TypeError\<close> of the encoder on a key or a value it
  cannot write. Decoding an object stores its members in order, a repeated name
  keeping its first place and its last value. Non-finite floats pass (the encoder's
  default \<^verbatim>\<open>allow_nan=True\<close>), tuples come back as lists.
\<close>

fun load_object :: "(pyfloat \<Rightarrow> string) \<Rightarrow> (pykey \<times> pyval) list \<Rightarrow>
    (pykey \<times> pyval option) list \<Rightarrow> (pykey \<times> pyval) list option" where
  "load_object frepr result [] = Some result"
| "load_object frepr result ((key, encoded) # rest) =
     (case json_key frepr key of
        None \<Rightarrow> None
      | Some name \<Rightarrow>
          (case encoded of
             None \<Rightarrow> None
           | Some v \<Rightarrow> load_object frepr (dict_set result (KStr name) v) rest))"

primrec json_roundtrip :: "(pyfloat \<Rightarrow> string) \<Rightarrow> pyval \<Rightarrow> pyval option" where
  "json_roundtrip frepr PNone = Some PNone"
| "json_roundtrip frepr (PStr s) = Some (PStr s)"
| "json_roundtrip frepr (PBool b) = Some (PBool b)"
| "json_roundtrip frepr (PInt i) = Some (PInt i)"
| "json_roundtrip frepr (PFloat f) = Some (PFloat f)"
| "json_roundtrip frepr (PList entries) =
     map_option PList (those (map (json_roundtrip frepr) entries))"
| "json_roundtrip frepr (PTuple entries) =
     map_option PList (those (map (json_roundtrip frepr) entries))"
| "json_roundtrip frepr (PDict items) =
     map_option PDict
       (load_object frepr [] (map (map_prod id (json_roundtrip frepr)) items))"
| "json_roundtrip frepr (PObject n) = None"

text \<open>
  \<^verbatim>\<open>sanitize_for_ipc\<close> (lines 92-98): the round trip, any failure re-raised as a
  \<^verbatim>\<open>RuntimeError\<close> (the cause appended to its message is left out).
\<close>

definition sanitize_for_ipc :: "(pyfloat \<Rightarrow> string) \<Rightarrow> pyval \<Rightarrow> error + pyval" where
  "sanitize_for_ipc frepr v =
     (case json_roundtrip frepr v of
        Some v' \<Rightarrow> Inr v'
      | None \<Rightarrow> Inl (RuntimeError ''Failed to serialize sandbox payload''))"

text \<open>
  Two properties of a value, read over the whole tree: every float in it is finite,
  and every mapping in it has string keys only.
\<close>

primrec finite_floats :: "pyval \<Rightarrow> bool" where
  "finite_floats PNone = True"
| "finite_floats (PStr s) = True"
| "finite_floats (PBool b) = True"
| "finite_floats (PInt i) = True"
| "finite_floats (PFloat f) = isfinite f"
| "finite_floats (PList entries) = list_all id (map finite_floats entries)"
| "finite_floats (PTuple entries) = list_all id (map finite_floats entries)"
| "finite_floats (PDict items) = list_all snd (map (map_prod id finite_floats) items)"
| "finite_floats (PObject n) = True"

primrec string_keys :: "pyval \<Rightarrow> bool" where
  "string_keys PNone = True"
| "string_keys (PStr s) = True"
| "string_keys (PBool b) = True"
| "string_keys (PInt i) = True"
| "string_keys (PFloat f) = True"
| "string_keys (PList entries) = list_all id (map string_keys entries)"
| "string_keys (PTuple entries) = list_all id (map string_keys entries)"
| "string_keys (PDict items) =
     list_all (\<lambda>(k, ok). is_str_key k \<and> ok) (map (map_prod id string_keys) items)"
| "string_keys (PObject n) = True"

text \<open>
  The serialization steps of \<^verbatim>\<open>execute_start\<close> (lines 604-607): a \<^verbatim>\<open>None\<close>
  result becomes \<^verbatim>\<open>{}\<close>, an unsupported one too, and the outcome goes through
  \<^verbatim>\<open>sanitize_for_ipc\<close>.
\<close>

definition serialize_result :: "(pyfloat \<Rightarrow> string) \<Rightarrow> pyval \<Rightarrow> error + pyval" where
  "serialize_result frepr result =
     (let serialized = to_json_value (if result \<noteq> PNone then result else PDict []);
          serialized = (if serialized = UNSUPPORTED then PDict [] else serialized)
      in sanitize_for_ipc frepr serialized)"

section \<open>The dispatcher state\<close>

text \<open>
  The module's globals. A waiter is an \<^verbatim>\<open>asyncio.Future\<close>, named by a number and
  kept in a store of future states; \<^verbatim>\<open>pending_requests\<close> maps a request id to
  the kind of the request and its waiter, in insertion order.
  \<^verbatim>\<open>stdout_lines\<close> are the messages written so far, one JSON object per line, kept
  here as the dictionaries given to \<^verbatim>\<open>send_message\<close>.
\<close>

datatype future_state = FPending | FResult pyval | FException pyval | FCancelled

definition future_done :: "future_state \<Rightarrow> bool" where
  "future_done s = (s \<noteq> FPending)"

text \<open>
  The handler task, as far as \<^verbatim>\<open>Task.cancel()\<close> reads and writes it: whether it
  is done, the futures its cancellation reaches (the future the handler is awaiting,
  which is the waiter of a request while the handler is inside
  \<^verbatim>\<open>await ctx.update(...)\<close>; several under a gather; none while the task is not
  suspended on a future), and the flag that makes the task raise
  \<^verbatim>\<open>CancelledError\<close> at its next step.
\<close>

record handler_task =
  cancel_reach :: "nat list"
  must_cancel :: bool
  task_done :: bool

record sandbox_state =
  pending_requests :: "(string \<times> string \<times> nat) list"
  futures :: "nat \<Rightarrow> future_state"
  current_handler_task :: "handler_task option"
  cancel_reason :: pyval
  stdout_lines :: "pyval list"

definition send_message :: "pyval \<Rightarrow> sandbox_state \<Rightarrow> sandbox_state" where
  "send_message message st = st\<lparr>stdout_lines := stdout_lines st @ [message]\<rparr>"

text \<open>
  \<^verbatim>\<open>d.get(name)\<close> and \<^verbatim>\<open>name in d\<close> on a dictionary with a string name.
\<close>

definition dict_get :: "(pykey \<times> pyval) list \<Rightarrow> string \<Rightarrow> pyval" where
  "dict_get items name = (case map_of items (KStr name) of None \<Rightarrow> PNone | Some v \<Rightarrow> v)"

definition dict_contains :: "(pykey \<times> pyval) list \<Rightarrow> string \<Rightarrow> bool" where
  "dict_contains items name = (map_of items (KStr name) \<noteq> None)"

text \<open>
  \<^verbatim>\<open>pending_requests.pop(request_id, None)\<close>: an unhashable id (a list or a
  dictionary) raises \<^verbatim>\<open>TypeError\<close>; only a string can equal a key of the table;
  the entry found is removed.
\<close>

primrec hashable :: "pyval \<Rightarrow> bool" where
  "hashable PNone = True"
| "hashable (PStr s) = True"
| "hashable (PBool b) = True"
| "hashable (PInt i) = True"
| "hashable (PFloat f) = True"
| "hashable (PList entries) = False"
| "hashable (PTuple entries) = list_all id (map hashable entries)"
| "hashable (PDict items) = False"
| "hashable (PObject n) = True"

definition pending_pop ::
  "(string \<times> string \<times> nat) list \<Rightarrow> pyval \<Rightarrow>
     (string \<times> nat) option \<times> (string \<times> string \<times> nat) list" where
  "pending_pop table request_id =
     (case request_id of
        PStr rid \<Rightarrow> (map_of table rid, filter (\<lambda>entry. fst entry \<noteq> rid) table)
      | _ \<Rightarrow> (None, table))"

text \<open>
  \<^verbatim>\<open>if not future.done(): future.set_result(value)\<close>, and the same with
  \<^verbatim>\<open>set_exception(RuntimeError(message))\<close>.
\<close>

definition set_result :: "nat \<Rightarrow> pyval \<Rightarrow> sandbox_state \<Rightarrow> sandbox_state" where
  "set_result future v st =
     (if \<not> future_done (futures st future)
      then st\<lparr>futures := (futures st)(future := FResult v)\<rparr> else st)"

definition set_exception :: "nat \<Rightarrow> pyval \<Rightarrow> sandbox_state \<Rightarrow> sandbox_state" where
  "set_exception future message st =
     (if \<not> future_done (futures st future)
      then st\<lparr>futures := (futures st)(future := FException message)\<rparr> else st)"

definition or_default :: "pyval \<Rightarrow> pyval \<Rightarrow> pyval" where
  "or_default v d = (if truthy v then v else d)"

text \<open>
  \<^verbatim>\<open>current_handler_task.cancel()\<close>: a task that is done is left alone; otherwise
  every pending future the cancellation reaches is cancelled on the spot, and only
  when there is none is the task flagged to be cancelled at its next step.
\<close>

fun cancel_futures :: "nat list \<Rightarrow> (nat \<Rightarrow> future_state) \<Rightarrow> (nat \<Rightarrow> future_state)" where
  "cancel_futures [] futs = futs"
| "cancel_futures (future # rest) futs =
     cancel_futures rest (if futs future = FPending then futs(future := FCancelled) else futs)"

definition task_cancel :: "handler_task \<Rightarrow> sandbox_state \<Rightarrow> sandbox_state" where
  "task_cancel task st =
     (if task_done task then st
      else if list_ex (\<lambda>future. futures st future = FPending) (cancel_reach task)
      then st\<lparr>futures := cancel_futures (cancel_reach task) (futures st)\<rparr>
      else st\<lparr>current_handler_task := Some (task\<lparr>must_cancel := True\<rparr>)\<rparr>)"

text \<open>
  \<^verbatim>\<open>handle_parent_message\<close> (lines 485-519). The result is the state after the
  call and the exception it raised, if any.
\<close>

definition handle_parent_message ::
  "sandbox_state \<Rightarrow> (pykey \<times> pyval) list \<Rightarrow> sandbox_state \<times> error option" where
  "handle_parent_message st message =
     (let msg_type = dict_get message ''type'' in
      if msg_type = PStr ''update-response'' then
        (let request_id = dict_get message ''requestId'' in
         if \<not> hashable request_id then (st, Some (TypeError ''unhashable type''))
         else
           (case pending_pop (pending_requests st) request_id of
              (None, table) \<Rightarrow> (st, None)
            | (Some (kind, future), table) \<Rightarrow>
                (let st1 = st\<lparr>pending_requests := table\<rparr> in
                 if truthy (dict_get message ''ok'') then
                   (let v = (if kind = ''update'' then dict_get message ''run''
                             else dict_get message ''value'')
                    in (set_result future v st1, None))
                 else
                   (let error_message =
                          or_default (dict_get message ''error'') (PStr ''Request failed'')
                    in (set_exception future error_message st1, None)))))
      else if msg_type = PStr ''resolve-secret-response'' then
        (let request_id = dict_get message ''requestId'' in
         if \<not> hashable request_id then (st, Some (TypeError ''unhashable type''))
         else
           (case pending_pop (pending_requests st) request_id of
              (None, table) \<Rightarrow> (st, None)
            | (Some (kind, future), table) \<Rightarrow>
                (let st1 = st\<lparr>pending_requests := table\<rparr> in
                 if truthy (dict_get message ''ok'') then
                   (set_result future (dict_get message ''value'') st1, None)
                 else
                   (let error_message =
                          or_default (dict_get message ''error'')
                            (PStr ''Secret resolution failed'')
                    in (set_exception future error_message st1, None)))))
      else if msg_type = PStr ''cancel'' then
        (let st1 = st\<lparr>cancel_reason := dict_get message ''reason''\<rparr> in
         case current_handler_task st1 of
           None \<Rightarrow> (st1, None)
         | Some task \<Rightarrow> (task_cancel task st1, None))
      else (st, None))"

text \<open>
  \<^verbatim>\<open>dispatch_messages\<close> (lines 532-538) over the messages queued so far: it stops
  at the shutdown sentinel, or when handling a message raises.
\<close>

fun dispatch_messages ::
  "sandbox_state \<Rightarrow> (pykey \<times> pyval) list list \<Rightarrow> sandbox_state \<times> error option" where
  "dispatch_messages st [] = (st, None)"
| "dispatch_messages st (message # queue) =
     (if dict_get message ''_internal'' = PStr ''shutdown'' then (st, None)
      else
        (case handle_parent_message st message of
           (st', Some err) \<Rightarrow> (st', Some err)
         | (st', None) \<Rightarrow> dispatch_messages st' queue))"

section \<open>The job context: update and resolveSecret\<close>

text \<open>
  \<^verbatim>\<open>normalize_updates\<close> (lines 439-457), statement by statement.
\<close>

definition normalize_updates :: "(pykey \<times> pyval) list \<Rightarrow> (pykey \<times> pyval) list" where
  "normalize_updates updates =
     (let result = [];
          result =
            (if dict_contains updates ''parameters'' then
               (let converted = to_json_value (dict_get updates ''parameters'')
                in if converted \<noteq> UNSUPPORTED
                   then dict_set result (KStr ''parameters'') converted else result)
             else result);
          result =
            (if dict_contains updates ''logsUrl''
             then dict_set result (KStr ''logsUrl'') (dict_get updates ''logsUrl'')
             else result);
          result =
            (if dict_contains updates ''metrics'' then
               (let converted = to_json_value (dict_get updates ''metrics'')
                in if converted \<noteq> UNSUPPORTED
                   then dict_set result (KStr ''metrics'') converted else result)
             else result);
          result =
            (if dict_contains updates ''context'' then
               (let converted = to_json_value (dict_get updates ''context'')
                in if converted \<noteq> UNSUPPORTED
                   then dict_set result (KStr ''context'') converted else result)
             else result);
          result =
            (if dict_contains updates ''timeoutMs''
             then dict_set result (KStr ''timeoutMs'') (dict_get updates ''timeoutMs'')
             else result)
      in result)"

text \<open>
  \<^verbatim>\<open>JobContext.update\<close> up to its \<^verbatim>\<open>await\<close> (lines 407-413), with the
  request id (a fresh UUID) and the new future as parameters; and
  \<^verbatim>\<open>JobContext.resolveSecret\<close> (lines 422-428), which registers the waiter before
  it serializes the reference.
\<close>

definition JobContext_update ::
  "(pyfloat \<Rightarrow> string) \<Rightarrow> sandbox_state \<Rightarrow> string \<Rightarrow> nat \<Rightarrow> (pykey \<times> pyval) list \<Rightarrow>
     sandbox_state \<times> error option" where
  "JobContext_update frepr st request_id future updates =
     (let normalized_updates = normalize_updates updates in
      case sanitize_for_ipc frepr (PDict normalized_updates) of
        Inl err \<Rightarrow> (st, Some err)
      | Inr sanitized \<Rightarrow>
          (let st1 = st\<lparr>futures := (futures st)(future := FPending)\<rparr>;
               st2 = st1\<lparr>pending_requests :=
                       dict_set (pending_requests st1) request_id (''update'', future)\<rparr>
           in (send_message
                 (PDict [(KStr ''type'', PStr ''update-request''),
                         (KStr ''requestId'', PStr request_id),
                         (KStr ''updates'', sanitized)]) st2, None)))"

definition JobContext_resolveSecret ::
  "(pyfloat \<Rightarrow> string) \<Rightarrow> sandbox_state \<Rightarrow> string \<Rightarrow> nat \<Rightarrow> pyval \<Rightarrow>
     sandbox_state \<times> error option" where
  "JobContext_resolveSecret frepr st request_id future reference =
     (let st1 = st\<lparr>futures := (futures st)(future := FPending)\<rparr>;
          st2 = st1\<lparr>pending_requests :=
                  dict_set (pending_requests st1) request_id (''resolve-secret'', future)\<rparr>
      in case sanitize_for_ipc frepr reference of
           Inl err \<Rightarrow> (st2, Some err)
         | Inr sanitized \<Rightarrow>
             (send_message
                (PDict [(KStr ''type'', PStr ''resolve-secret-request''),
                        (KStr ''requestId'', PStr request_id),
                        (KStr ''reference'', sanitized)]) st2, None))"

section \<open>Logging and the end of the handler\<close>

text \<open>
  \<^verbatim>\<open>str(err)\<close>, then \<^verbatim>\<open>normalize_meta\<close> (lines 369-386), which returns the
  metadata and may write a warning, and the \<^verbatim>\<open>log\<close> closure of
  \<^verbatim>\<open>execute_start\<close> (lines 594-597).
\<close>

fun error_text :: "error \<Rightarrow> string" where
  "error_text (PermissionError m) = m"
| "error_text (TypeError m) = m"
| "error_text (RuntimeError m) = m"

definition normalize_meta ::
  "(pyfloat \<Rightarrow> string) \<Rightarrow> pyval \<Rightarrow> pyval \<Rightarrow> sandbox_state \<Rightarrow> pyval \<times> sandbox_state" where
  "normalize_meta frepr task_id meta st =
     (if meta = PNone then (PNone, st)
      else
        (case sanitize_for_ipc frepr meta of
           Inr serialized \<Rightarrow>
             (case serialized of
                PDict items \<Rightarrow> (PDict (dict_set items (KStr ''sandboxTaskId'') task_id), st)
              | _ \<Rightarrow> (PDict [(KStr ''sandboxTaskId'', task_id)], st))
         | Inl err \<Rightarrow>
             (PDict [(KStr ''sandboxTaskId'', task_id)],
              send_message
                (PDict [(KStr ''type'', PStr ''log''),
                        (KStr ''level'', PStr ''warn''),
                        (KStr ''message'', PStr ''Failed to serialize log metadata''),
                        (KStr ''meta'',
                           PDict [(KStr ''sandboxTaskId'', task_id),
                                  (KStr ''error'', PStr (error_text err))])]) st)))"

definition setdefault :: "pyval \<Rightarrow> string \<Rightarrow> pyval \<Rightarrow> pyval" where
  "setdefault d name v =
     (case d of
        PDict items \<Rightarrow> (if dict_contains items name then d else PDict (items @ [(KStr name, v)]))
      | _ \<Rightarrow> d)"

definition log ::
  "(pyfloat \<Rightarrow> string) \<Rightarrow> pyval \<Rightarrow> string \<Rightarrow> string \<Rightarrow> pyval \<Rightarrow> sandbox_state \<Rightarrow> sandbox_state" where
  "log frepr task_id level message meta st =
     (case normalize_meta frepr task_id meta st of
        (normalized0, st1) \<Rightarrow>
          (let normalized = or_default normalized0 (PDict [(KStr ''sandboxTaskId'', task_id)]);
               normalized = setdefault normalized ''sandboxTaskId'' task_id
           in send_message
                (PDict [(KStr ''type'', PStr ''log''),
                        (KStr ''level'', PStr level),
                        (KStr ''message'', PStr message),
                        (KStr ''meta'', normalized)]) st1))"

text \<open>
  The loop over \<^verbatim>\<open>list(pending_requests.items())\<close> that fails every waiter not
  yet done (lines 619-621 and 628-630).
\<close>

fun fail_pending :: "(string \<times> string \<times> nat) list \<Rightarrow> pyval \<Rightarrow> sandbox_state \<Rightarrow> sandbox_state" where
  "fail_pending [] message st = st"
| "fail_pending ((request_id, kind, future) # rest) message st =
     fail_pending rest message (set_exception future message st)"

text \<open>
  How \<^verbatim>\<open>handler(context)\<close> and its \<^verbatim>\<open>await\<close> end: a value, a
  \<^verbatim>\<open>CancelledError\<close>, or another exception with its formatted traceback. The
  measured duration, the resource usage, the task id and the formatter of tracebacks
  are parameters of the run.
\<close>

datatype handler_outcome = Returned pyval | Cancelled | Raised string

record runtime =
  float_repr :: "pyfloat \<Rightarrow> string"
  task_id :: pyval
  duration_ms :: int
  resource_usage :: pyval
  format_exc :: "error \<Rightarrow> string"

text \<open>
  The three ways \<^verbatim>\<open>execute_start\<close> ends (lines 599-632): the
  \<^verbatim>\<open>except Exception\<close> branch, the \<^verbatim>\<open>except asyncio.CancelledError\<close>
  branch, and the whole \<^verbatim>\<open>try\<close> statement, in which a failing serialization of
  the result is an exception like any other.
\<close>

definition handler_failed :: "runtime \<Rightarrow> string \<Rightarrow> sandbox_state \<Rightarrow> sandbox_state" where
  "handler_failed rt error st =
     (let message = ''Handler threw error'';
          st1 = log (float_repr rt) (task_id rt) ''error'' message
                  (PDict [(KStr ''error'', PStr error)]) st;
          st2 = fail_pending (pending_requests st1) (PStr ''Handler failed'') st1;
          st3 = st2\<lparr>pending_requests := []\<rparr>
      in send_message
           (PDict [(KStr ''type'', PStr ''error''),
                   (KStr ''error'',
                      PDict [(KStr ''message'', PStr message), (KStr ''stack'', PStr error)])])
           st3)"

definition handler_cancelled :: "sandbox_state \<Rightarrow> sandbox_state" where
  "handler_cancelled st =
     (let message = or_default (cancel_reason st) (PStr ''Sandbox execution cancelled'');
          st1 = fail_pending (pending_requests st) message st;
          st2 = st1\<lparr>pending_requests := []\<rparr>
      in send_message
           (PDict [(KStr ''type'', PStr ''error''),
                   (KStr ''error'', PDict [(KStr ''message'', message)])]) st2)"

definition execute_start_finish :: "runtime \<Rightarrow> sandbox_state \<Rightarrow> handler_outcome \<Rightarrow> sandbox_state" where
  "execute_start_finish rt st outcome =
     (case outcome of
        Returned result \<Rightarrow>
          (case serialize_result (float_repr rt) result of
             Inr sanitized \<Rightarrow>
               send_message
                 (PDict [(KStr ''type'', PStr ''result''),
                         (KStr ''result'', sanitized),
                         (KStr ''durationMs'', PInt (duration_ms rt)),
                         (KStr ''resourceUsage'', resource_usage rt)]) st
           | Inl err \<Rightarrow> handler_failed rt (format_exc rt err) st)
      | Cancelled \<Rightarrow> handler_cancelled st
      | Raised error \<Rightarrow> handler_failed rt error st)"

section \<open>The path resolver and the filesystem guard\<close>

text \<open>
  What the resolver reads from its host: \<^verbatim>\<open>os.path.realpath\<close>,
  \<^verbatim>\<open>os.path.relpath(p, os.sep)\<close>, \<^verbatim>\<open>os.getcwd()\<close> and the environment variable
  \<^verbatim>\<open>APPHUB_SANDBOX_HOST_ROOT_PREFIX\<close>. Paths are POSIX paths.
\<close>

record host_env =
  realpath :: "string \<Rightarrow> string"
  relpath_from_root :: "string \<Rightarrow> string"
  getcwd :: string
  host_root_prefix :: "string option"

text \<open>
  \<^verbatim>\<open>os.sep\<close>, \<^verbatim>\<open>str.startswith\<close>, \<^verbatim>\<open>str.endswith\<close>,
  \<^verbatim>\<open>os.path.isabs\<close> and \<^verbatim>\<open>os.path.join\<close> on two components.
\<close>

definition os_sep :: string where
  "os_sep = ''/''"

definition startswith :: "string \<Rightarrow> string \<Rightarrow> bool" where
  "startswith s p = (take (length p) s = p)"

definition endswith :: "string \<Rightarrow> string \<Rightarrow> bool" where
  "endswith s p = (length p \<le> length s \<and> drop (length s - length p) s = p)"

definition path_isabs :: "string \<Rightarrow> bool" where
  "path_isabs p = startswith p os_sep"

definition path_join :: "string \<Rightarrow> string \<Rightarrow> string" where
  "path_join a b =
     (if startswith b os_sep then b
      else if a = [] \<or> endswith a os_sep then a @ b
      else a @ os_sep @ b)"

text \<open>
  The two permission errors of the guard.
\<close>

definition outside_bundle :: error where
  "outside_bundle = PermissionError ''Attempted to access path outside of bundle directory''"

definition fs_capability_required :: error where
  "fs_capability_required =
     PermissionError (''File system access requires declaring the '' @ [CHR 0x22] @ ''fs'' @ [CHR 0x22] @ '' capability'')"

text \<open>
  \<^verbatim>\<open>ensure_within_bundle\<close> (lines 101-116). An unset or empty environment
  variable means no host root.
\<close>

definition ensure_within_bundle :: "host_env \<Rightarrow> string \<Rightarrow> string \<Rightarrow> error + string" where
  "ensure_within_bundle env bundle_dir candidate =
     (let normalized_root = realpath env bundle_dir;
          normalized_candidate = realpath env candidate
      in if normalized_candidate = normalized_root
            \<or> startswith normalized_candidate (normalized_root @ os_sep)
         then Inr normalized_candidate
         else
           (case host_root_prefix env of
              None \<Rightarrow> Inl outside_bundle
            | Some host_root_raw \<Rightarrow>
                if host_root_raw = [] then Inl outside_bundle
                else
                  (let host_root = realpath env host_root_raw
                   in if normalized_candidate = host_root
                         \<or> startswith normalized_candidate (host_root @ os_sep)
                      then Inr normalized_candidate
                      else
                        (let relative_from_root = relpath_from_root env normalized_candidate;
                             translated = realpath env (path_join host_root relative_from_root)
                         in if translated = host_root
                               \<or> startswith translated (host_root @ os_sep)
                            then Inr translated
                            else Inl outside_bundle))))"

text \<open>
  An argument of a filesystem primitive: a file descriptor (an \<^verbatim>\<open>int\<close>), a
  \<^verbatim>\<open>str\<close> path, a \<^verbatim>\<open>bytes\<close> path (both are in the \<^verbatim>\<open>PathLike\<close> union of
  line 119), or a value of another type.
\<close>

datatype fsarg = FdArg int | StrPath string | BytesPath string | OtherArg pyval

text \<open>
  \<^verbatim>\<open>normalize_path_argument\<close> (lines 122-133). A \<^verbatim>\<open>bytes\<close> path never gets
  through: an absolute one reaches \<^verbatim>\<open>ensure_within_bundle\<close>, where comparing it
  with the \<^verbatim>\<open>str\<close> root is false and \<^verbatim>\<open>bytes.startswith\<close> of a \<^verbatim>\<open>str\<close>
  raises \<^verbatim>\<open>TypeError\<close>; a relative one is joined to the \<^verbatim>\<open>str\<close> working
  directory, which raises \<^verbatim>\<open>TypeError\<close> too. \<^verbatim>\<open>os.fspath\<close> raises it for a
  value that is no path.
\<close>

definition normalize_path_argument ::
  "host_env \<Rightarrow> string \<Rightarrow> bool \<Rightarrow> fsarg \<Rightarrow> error + fsarg" where
  "normalize_path_argument env bundle_dir allow_fs v =
     (case v of
        FdArg fd \<Rightarrow> (if \<not> allow_fs then Inl fs_capability_required else Inr (FdArg fd))
      | StrPath path_str \<Rightarrow>
          (if path_isabs path_str
           then map_sum id StrPath (ensure_within_bundle env bundle_dir path_str)
           else
             (let absolute = realpath env (path_join (getcwd env) path_str)
              in map_sum id StrPath (ensure_within_bundle env bundle_dir absolute)))
      | BytesPath path_bytes \<Rightarrow>
          (if path_isabs path_bytes
           then Inl (TypeError ''startswith first arg must be bytes or a tuple of bytes, not str'')
           else Inl (TypeError (''Can'' @ [CHR 0x27] @ ''t mix strings and bytes in path components'')))
      | OtherArg other \<Rightarrow>
          Inl (TypeError ''expected str, bytes or os.PathLike object''))"

text \<open>
  A call of the original primitive, with the arguments it receives. A guarded
  primitive either raises or makes exactly this call.
\<close>

datatype invocation = Invoke string "fsarg list" "(string \<times> fsarg) list"

text \<open>
  \<^verbatim>\<open>guarded_open\<close> (lines 140-148).
\<close>

definition guarded_open ::
  "host_env \<Rightarrow> string \<Rightarrow> bool \<Rightarrow> fsarg \<Rightarrow> fsarg list \<Rightarrow> (string \<times> fsarg) list \<Rightarrow>
     error + invocation" where
  "guarded_open env bundle_dir allow_fs file args kwargs =
     (case file of
        FdArg fd \<Rightarrow>
          (if \<not> allow_fs then Inl fs_capability_required
           else Inr (Invoke ''open'' (file # args) kwargs))
      | _ \<Rightarrow>
          (case normalize_path_argument env bundle_dir allow_fs file of
             Inl err \<Rightarrow> Inl err
           | Inr path \<Rightarrow>
               (if \<not> allow_fs then Inl fs_capability_required
                else Inr (Invoke ''open'' (path # args) kwargs))))"

text \<open>
  The two loops of \<^verbatim>\<open>wrapper\<close>, over the positional indexes and over the keyword
  names, then \<^verbatim>\<open>wrapper\<close> itself (lines 160-171).
\<close>

fun normalize_indexes ::
  "host_env \<Rightarrow> string \<Rightarrow> fsarg list \<Rightarrow> int list \<Rightarrow> error + fsarg list" where
  "normalize_indexes env bundle_dir new_args [] = Inr new_args"
| "normalize_indexes env bundle_dir new_args (index # rest) =
     (if 0 \<le> index \<and> index < int (length new_args) then
        (case normalize_path_argument env bundle_dir True (new_args ! nat index) of
           Inl err \<Rightarrow> Inl err
         | Inr v \<Rightarrow> normalize_indexes env bundle_dir (new_args[nat index := v]) rest)
      else normalize_indexes env bundle_dir new_args rest)"

fun normalize_kwargs ::
  "host_env \<Rightarrow> string \<Rightarrow> (string \<times> fsarg) list \<Rightarrow> string list \<Rightarrow>
     error + (string \<times> fsarg) list" where
  "normalize_kwargs env bundle_dir kwargs [] = Inr kwargs"
| "normalize_kwargs env bundle_dir kwargs (key # rest) =
     (case map_of kwargs key of
        None \<Rightarrow> normalize_kwargs env bundle_dir kwargs rest
      | Some v \<Rightarrow>
          (case normalize_path_argument env bundle_dir True v of
             Inl err \<Rightarrow> Inl err
           | Inr v' \<Rightarrow> normalize_kwargs env bundle_dir (dict_set kwargs key v') rest))"

definition wrapper ::
  "host_env \<Rightarrow> string \<Rightarrow> bool \<Rightarrow> string \<Rightarrow> int list \<Rightarrow> string list option \<Rightarrow>
     fsarg list \<Rightarrow> (string \<times> fsarg) list \<Rightarrow> error + invocation" where
  "wrapper env bundle_dir allow_fs name indexes kw_names args kwargs =
     (if \<not> allow_fs then Inl fs_capability_required
      else
        (case normalize_indexes env bundle_dir args indexes of
           Inl err \<Rightarrow> Inl err
         | Inr new_args \<Rightarrow>
             (case normalize_kwargs env bundle_dir kwargs
                     (case kw_names of None \<Rightarrow> [] | Some names \<Rightarrow> names) of
                Inl err \<Rightarrow> Inl err
              | Inr kwargs' \<Rightarrow> Inr (Invoke name new_args kwargs'))))"

text \<open>
  The tables of \<^verbatim>\<open>setup_filesystem_guards\<close> (lines 175-208), the capability test
  of line 137, and a call of a name of \<^verbatim>\<open>os\<close> or \<^verbatim>\<open>shutil\<close> after the guards
  are installed: through \<^verbatim>\<open>wrapper\<close> when the table lists the name (no keyword
  names are ever given), straight to the original otherwise.
\<close>

definition path_methods :: "(string \<times> int list) list" where
  "path_methods =
     [(''listdir'', [0]), (''scandir'', [0]), (''remove'', [0]), (''unlink'', [0]),
      (''rmdir'', [0]), (''mkdir'', [0]), (''makedirs'', [0]), (''chdir'', [0]),
      (''replace'', [0, 1]), (''rename'', [0, 1]), (''stat'', [0]), (''lstat'', [0]),
      (''readlink'', [0]), (''symlink'', [0, 1]), (''utime'', [0]), (''chmod'', [0]),
      (''chown'', [0]), (''access'', [0]), (''walk'', [0])]"

definition shutil_methods :: "(string \<times> int list) list" where
  "shutil_methods =
     [(''copy'', [0, 1]), (''copy2'', [0, 1]), (''copyfile'', [0, 1]), (''move'', [0, 1]),
      (''copytree'', [0, 1]), (''rmtree'', [0]), (''make_archive'', [1])]"

definition allow_fs_of :: "pyval list \<Rightarrow> bool" where
  "allow_fs_of capabilities = (PStr ''fs'' \<in> set capabilities)"

definition guarded_call ::
  "(string \<times> int list) list \<Rightarrow> host_env \<Rightarrow> string \<Rightarrow> pyval list \<Rightarrow> string \<Rightarrow>
     fsarg list \<Rightarrow> (string \<times> fsarg) list \<Rightarrow> error + invocation" where
  "guarded_call methods env bundle_dir capabilities name args kwargs =
     (case map_of methods name of
        Some indexes \<Rightarrow>
          wrapper env bundle_dir (allow_fs_of capabilities) name indexes None args kwargs
      | None \<Rightarrow> Inr (Invoke name args kwargs))"

section \<open>Loading the entry and resolving the handler\<close>

text \<open>
  An attribute of the entry module is an object with an identity, callable or not;
  the module itself may be callable. The handler is \<^verbatim>\<open>None\<close>, an attribute, or
  the module.
\<close>

datatype pyobject = Object nat bool

fun callable_object :: "pyobject \<Rightarrow> bool" where
  "callable_object (Object ident c) = c"

record pymodule =
  attributes :: "(string \<times> pyobject) list"
  module_callable :: bool

datatype handler = NoHandler | AttributeHandler pyobject | ModuleHandler

definition hasattr :: "pymodule \<Rightarrow> string \<Rightarrow> bool" where
  "hasattr module name = (map_of (attributes module) name \<noteq> None)"

definition getattr :: "pymodule \<Rightarrow> string \<Rightarrow> handler" where
  "getattr module name =
     (case map_of (attributes module) name of
        None \<Rightarrow> NoHandler
      | Some obj \<Rightarrow> AttributeHandler obj)"

fun callable :: "pymodule \<Rightarrow> handler \<Rightarrow> bool" where
  "callable module NoHandler = False"
| "callable module (AttributeHandler obj) = callable_object obj"
| "callable module ModuleHandler = module_callable module"

text \<open>
  Handler resolution (lines 578-590). \<^verbatim>\<open>hasattr\<close> with a name that is not a
  string raises \<^verbatim>\<open>TypeError\<close>.
\<close>

definition resolve_handler :: "pyval \<Rightarrow> pymodule \<Rightarrow> error + handler" where
  "resolve_handler export_name module =
     (case (if truthy export_name
            then (case export_name of
                    PStr name \<Rightarrow> Inr (hasattr module name)
                  | _ \<Rightarrow> Inl (TypeError ''attribute name must be string''))
            else Inr False) of
        Inl err \<Rightarrow> Inl err
      | Inr by_export_name \<Rightarrow>
          (let handler =
                 (if by_export_name
                  then (case export_name of PStr name \<Rightarrow> getattr module name | _ \<Rightarrow> NoHandler)
                  else if hasattr module ''handler''
                          \<and> callable module (getattr module ''handler'')
                  then getattr module ''handler''
                  else if module_callable module then ModuleHandler
                  else if hasattr module ''default''
                          \<and> callable module (getattr module ''default'')
                  then getattr module ''default''
                  else NoHandler)
           in if \<not> callable module handler
              then Inl (RuntimeError ''Bundle entry did not export a callable handler'')
              else Inr handler))"

text \<open>
  The fields of the start payload the runtime reads before it calls the handler, the
  collaborators that may fail on the way (\<^verbatim>\<open>os.chdir\<close>, dependency preparation,
  loading the module), and the steps attempted, recorded in order.
\<close>

record start_payload =
  taskId :: pyval
  directory :: string
  entryFile :: string
  exportName :: pyval
  manifest_capabilities :: pyval
  workflowEventContext :: pyval

record collaborators =
  chdir :: "string \<Rightarrow> error option"
  ensure_python_dependencies :: "string \<Rightarrow> error option"
  load_module :: "string \<Rightarrow> error + pymodule"

datatype effect =
    PublishWorkflowContext pyval
  | Chdir string
  | SetupFilesystemGuards string "pyval list"
  | SetupNetworkGuards "pyval list"
  | EnsureDependencies string
  | LoadModule string

text \<open>
  Lines 558-560: the declared capabilities, or the empty list when they are absent,
  falsy or not a list.
\<close>

definition capabilities_of :: "pyval \<Rightarrow> pyval list" where
  "capabilities_of declared =
     (case or_default declared (PList []) of PList capabilities \<Rightarrow> capabilities | _ \<Rightarrow> [])"

text \<open>
  \<^verbatim>\<open>execute_start\<close> from the containment check of the entry file to the
  resolution of the handler (lines 544-590). The result holds the steps attempted
  and either the error raised or the module with the handler to call. The start
  payload is decoded JSON, so publishing the workflow context cannot fail.
\<close>

definition execute_start_prepare ::
  "host_env \<Rightarrow> collaborators \<Rightarrow> start_payload \<Rightarrow> effect list \<times> (error + pymodule \<times> handler)" where
  "execute_start_prepare env collab payload =
     (let bundle_dir = directory payload;
          entry_file = realpath env (entryFile payload)
      in case ensure_within_bundle env bundle_dir entry_file of
           Inl err \<Rightarrow> ([], Inl err)
         | Inr checked \<Rightarrow>
             (let done1 = (if workflowEventContext payload \<noteq> PNone
                           then [PublishWorkflowContext (workflowEventContext payload)] else [])
              in case chdir collab bundle_dir of
                   Some err \<Rightarrow> (done1 @ [Chdir bundle_dir], Inl err)
                 | None \<Rightarrow>
                     (let capabilities = capabilities_of (manifest_capabilities payload);
                          done2 = done1 @ [Chdir bundle_dir,
                                    SetupFilesystemGuards bundle_dir capabilities,
                                    SetupNetworkGuards capabilities,
                                    EnsureDependencies bundle_dir]
                      in case ensure_python_dependencies collab bundle_dir of
                           Some err \<Rightarrow>
                             (done2, Inl (RuntimeError ''Failed to install Python dependencies''))
                         | None \<Rightarrow>
                             (case load_module collab entry_file of
                                Inl err \<Rightarrow> (done2 @ [LoadModule entry_file], Inl err)
                              | Inr module \<Rightarrow>
                                  (done2 @ [LoadModule entry_file],
                                   map_sum id (Pair module)
                                     (resolve_handler (exportName payload) module))))))"

section \<open>Notions used in the statements\<close>

text \<open>
  The containment the path resolver decides: a path is the root itself or starts with
  the root followed by the separator. \<open>host_root\<close> is the configured host root,
  resolved, and \<open>translate\<close> re-roots a path under it.
\<close>

definition equal_or_descendant :: "string \<Rightarrow> string \<Rightarrow> bool" where
  "equal_or_descendant root p = (p = root \<or> startswith p (root @ os_sep))"

definition host_root :: "host_env \<Rightarrow> string option" where
  "host_root env =
     (case host_root_prefix env of
        None \<Rightarrow> None
      | Some raw \<Rightarrow> if raw = [] then None else Some (realpath env raw))"

definition translate :: "host_env \<Rightarrow> string \<Rightarrow> string \<Rightarrow> string" where
  "translate env H C = realpath env (path_join H (relpath_from_root env C))"

text \<open>
  The entry \<^verbatim>\<open>normalize_updates\<close> keeps for a sanitized key and for a key copied
  as it is.
\<close>

definition supported_entry :: "(pykey \<times> pyval) list \<Rightarrow> string \<Rightarrow> (pykey \<times> pyval) list" where
  "supported_entry updates name =
     (if dict_contains updates name \<and> to_json_value (dict_get updates name) \<noteq> UNSUPPORTED
      then [(KStr name, to_json_value (dict_get updates name))] else [])"

definition raw_entry :: "(pykey \<times> pyval) list \<Rightarrow> string \<Rightarrow> (pykey \<times> pyval) list" where
  "raw_entry updates name =
     (if dict_contains updates name then [(KStr name, dict_get updates name)] else [])"

text \<open>
  A waiter completed by the runtime (resolved with a value or failed with an error),
  and a response message of the parent.
\<close>

fun resolved_or_failed :: "future_state \<Rightarrow> bool" where
  "resolved_or_failed (FResult v) = True"
| "resolved_or_failed (FException e) = True"
| "resolved_or_failed FPending = False"
| "resolved_or_failed FCancelled = False"

definition is_response :: "(pykey \<times> pyval) list \<Rightarrow> bool" where
  "is_response message =
     (dict_get message ''type'' = PStr ''update-response''
      \<or> dict_get message ''type'' = PStr ''resolve-secret-response'')"



section \<open>Concrete inputs\<close>

text \<open>
  A state with two pending requests, the parameters of a run, and a successful
  response of the parent to an update request; then a state in which the handler is
  awaiting the waiter of its one pending request, and a cancel message.
\<close>

definition sample_state :: sandbox_state where
  "sample_state = \<lparr>pending_requests = [(''r1'', ''update'', 0), (''r2'', ''resolve-secret'', 1)],
       futures = (\<lambda>_. FPending),
       current_handler_task = Some \<lparr>cancel_reach = [], must_cancel = False, task_done = False\<rparr>,
       cancel_reason = PNone,
       stdout_lines = []\<rparr>"

definition sample_runtime :: runtime where
  "sample_runtime = \<lparr>float_repr = (\<lambda>_. ''0.5''), task_id = PStr ''t1'', duration_ms = 12,
      resource_usage = PNone, format_exc = error_text\<rparr>"

definition update_response :: "string \<Rightarrow> pyval \<Rightarrow> (pykey \<times> pyval) list" where
  "update_response rid run =
     [(KStr ''type'', PStr ''update-response''), (KStr ''requestId'', PStr rid),
      (KStr ''ok'', PBool True), (KStr ''run'', run)]"



text \<open>
  Two hosts: \<open>plain_host\<close> has no symbolic links and no host root; \<open>linked_host\<close>
  has the host root \<^verbatim>\<open>/host\<close> and one link, \<^verbatim>\<open>/host/link\<close>, that leaves it.
  Then a callable entry module with three attributes, collaborators that never fail,
  and a start payload whose entry file lies under the host root.
\<close>

definition plain_host :: host_env where
  "plain_host = \<lparr>realpath = (\<lambda>p. p), relpath_from_root = (\<lambda>p. drop 1 p),
      getcwd = ''/work/b'', host_root_prefix = None\<rparr>"

definition linked_host :: host_env where
  "linked_host = \<lparr>realpath = (\<lambda>p. if p = ''/host/link'' then ''/elsewhere'' else p),
      relpath_from_root = (\<lambda>p. drop 1 p), getcwd = ''/work/b'',
      host_root_prefix = Some ''/host''\<rparr>"

definition sample_module :: pymodule where
  "sample_module = \<lparr>attributes = [(''main'', Object 1 False), (''handler'', Object 2 True),
      (''default'', Object 3 True)], module_callable = True\<rparr>"

definition sample_collaborators :: collaborators where
  "sample_collaborators = \<lparr>chdir = (\<lambda>_. None), ensure_python_dependencies = (\<lambda>_. None),
      load_module = (\<lambda>_. Inr sample_module)\<rparr>"

definition sample_payload :: start_payload where
  "sample_payload = \<lparr>taskId = PStr ''t1'', directory = ''/work/b'',
      entryFile = ''/host/evil.py'', exportName = PNone, manifest_capabilities = PNone,
      workflowEventContext = PNone\<rparr>"

section \<open>Properties of the result sanitizer\<close>

text \<open>
  The list loop is a filter; storing under a fresh key appends; the dict loop produces
  distinct keys, and every entry it produces is a supported value under a string key.
\<close>

lemma append_supported_eq: "append_supported result cs = result @ filter (\<lambda>c. c \<noteq> UNSUPPORTED) cs"
  by (induction cs arbitrary: result) auto

lemma dict_set_fresh: "k \<notin> fst ` set result \<Longrightarrow> dict_set result k v = result @ [(k, v)]"
  by (induction result) auto

lemma dict_set_keys: "fst ` set (dict_set result k v) = insert k (fst ` set result)"
proof (induction result)
  case Nil
  show ?case by simp
next
  case (Cons p result)
  obtain k' v' where p: "p = (k', v')" by (cases p)
  show ?case using Cons.IH unfolding p by (cases "k' = k") auto
qed

lemma dict_set_distinct: "distinct (map fst result) \<Longrightarrow> distinct (map fst (dict_set result k v))"
  by (induction result) (auto simp: dict_set_keys)

lemma dict_set_values: "(k', v') \<in> set (dict_set result k v) \<Longrightarrow> (k', v') \<in> set result \<or> (k', v') = (k, v)"
  by (induction result) (auto split: if_splits)

lemma store_supported_distinct:
  "distinct (map fst result) \<Longrightarrow> distinct (map fst (store_supported result kcs))"
  by (induction result kcs rule: store_supported.induct) (auto simp: dict_set_distinct)

lemma store_supported_members:
  "(k, c) \<in> set (store_supported result kcs) \<Longrightarrow>
     (k, c) \<in> set result \<or> ((k, c) \<in> set kcs \<and> is_str_key k \<and> c \<noteq> UNSUPPORTED)"
  by (induction result kcs rule: store_supported.induct)
     (auto split: if_splits dest: dict_set_values)

lemma store_supported_clean:
  "distinct (map fst kcs) \<Longrightarrow> fst ` set kcs \<inter> fst ` set result = {} \<Longrightarrow>
   list_all (\<lambda>(k, c). is_str_key k \<and> c \<noteq> UNSUPPORTED) kcs \<Longrightarrow>
   store_supported result kcs = result @ kcs"
proof (induction result kcs rule: store_supported.induct)
  case (1 result)
  then show ?case by simp
next
  case (2 result key converted rest)
  have ok: "is_str_key key" "converted \<noteq> UNSUPPORTED"
    using "2.prems"(3) by simp_all
  have fresh: "key \<notin> fst ` set result"
    using "2.prems"(2) by auto
  have step: "dict_set result key converted = result @ [(key, converted)]"
    using fresh by (rule dict_set_fresh)
  have "store_supported (dict_set result key converted) rest = dict_set result key converted @ rest"
  proof (rule "2.IH"(1)[OF ok])
    show "distinct (map fst rest)" using "2.prems"(1) by simp
    show "fst ` set rest \<inter> fst ` set (dict_set result key converted) = {}"
      using "2.prems"(1,2) by (auto simp: dict_set_keys)
    show "list_all (\<lambda>(k, c). is_str_key k \<and> c \<noteq> UNSUPPORTED) rest"
      using "2.prems"(3) by simp
  qed
  then show ?case using ok step by simp
qed

text \<open>
  C9: the result sanitizer is idempotent. For every value \<open>v\<close>, sanitizing the output
  of the sanitizer again gives that same output; this covers the case where the output
  is the \<^verbatim>\<open>UNSUPPORTED\<close> sentinel, which is sanitized to itself.
\<close>

theorem to_json_value_idempotent: "to_json_value (to_json_value v) = to_json_value v"
proof (induction v)
  case (PFloat f)
  then show ?case by (simp add: UNSUPPORTED_def)
next
  case (PList xs)
  then have "map to_json_value (filter (\<lambda>c. c \<noteq> UNSUPPORTED) (map to_json_value xs))
      = filter (\<lambda>c. c \<noteq> UNSUPPORTED) (map to_json_value xs)"
    by (induction xs) auto
  then show ?case by (simp add: append_supported_eq)
next
  case (PTuple xs)
  then have "map to_json_value (filter (\<lambda>c. c \<noteq> UNSUPPORTED) (map to_json_value xs))
      = filter (\<lambda>c. c \<noteq> UNSUPPORTED) (map to_json_value xs)"
    by (induction xs) auto
  then show ?case by (simp add: append_supported_eq)
next
  case (PDict items)
  define ys where "ys = store_supported [] (map (map_prod id to_json_value) items)"
  have mem: "\<And>k c. (k, c) \<in> set ys \<Longrightarrow>
      is_str_key k \<and> c \<noteq> UNSUPPORTED \<and> (\<exists>v. (k, v) \<in> set items \<and> c = to_json_value v)"
  proof -
    fix k c assume "(k, c) \<in> set ys"
    then have "(k, c) \<in> set (map (map_prod id to_json_value) items) \<and> is_str_key k \<and> c \<noteq> UNSUPPORTED"
      unfolding ys_def by (auto dest: store_supported_members)
    then show "is_str_key k \<and> c \<noteq> UNSUPPORTED \<and> (\<exists>v. (k, v) \<in> set items \<and> c = to_json_value v)"
      by auto
  qed
  have stable: "map (map_prod id to_json_value) ys = ys"
  proof (rule map_idI)
    fix p assume p: "p \<in> set ys"
    obtain k c where kc: "p = (k, c)" by (cases p)
    from mem[of k c] p kc obtain v where "(k, v) \<in> set items" "c = to_json_value v" by auto
    then have "to_json_value c = c" using PDict.IH[of "(k, v)" v] by simp
    then show "map_prod id to_json_value p = p" using kc by simp
  qed
  have dist: "distinct (map fst ys)"
    unfolding ys_def by (rule store_supported_distinct) simp
  have "store_supported [] ys = [] @ ys"
  proof (rule store_supported_clean)
    show "distinct (map fst ys)" by (rule dist)
    show "fst ` set ys \<inter> fst ` set [] = {}" by simp
    show "list_all (\<lambda>(k, c). is_str_key k \<and> c \<noteq> UNSUPPORTED) ys"
      unfolding list_all_iff using mem by auto
  qed
  then show ?case using stable by (simp add: ys_def)
qed (simp_all add: UNSUPPORTED_def)

text \<open>
  The output of the sanitizer holds finite floats and string keys only, and the JSON
  round trip leaves a supported output as it is.
\<close>

lemma to_json_value_finite_floats: "finite_floats (to_json_value v)"
proof (induction v)
  case (PList xs)
  then show ?case by (auto simp add: append_supported_eq list_all_iff)
next
  case (PTuple xs)
  then show ?case by (auto simp add: append_supported_eq list_all_iff)
next
  case (PDict items)
  have "snd p" if "p \<in> set (map (map_prod id finite_floats)
      (store_supported [] (map (map_prod id to_json_value) items)))" for p
  proof -
    from that obtain k c where kc: "(k, c) \<in> set (store_supported [] (map (map_prod id to_json_value) items))"
      and p: "p = (k, finite_floats c)" by auto
    from store_supported_members[OF kc] obtain v where "(k, v) \<in> set items" "c = to_json_value v"
      by auto
    then show ?thesis using PDict.IH[of "(k, v)" v] p by simp
  qed
  then show ?case by (simp add: list_all_iff)
qed (simp_all add: UNSUPPORTED_def)

lemma string_keys_items:
  "list_all (\<lambda>(k, ok). is_str_key k \<and> ok) (map (map_prod id g) ys)
     = list_all (\<lambda>(k, c). is_str_key k \<and> g c) ys"
  by (induction ys) auto

lemma to_json_value_string_keys: "string_keys (to_json_value v)"
proof (induction v)
  case (PList xs)
  then show ?case by (auto simp add: append_supported_eq list_all_iff)
next
  case (PTuple xs)
  then show ?case by (auto simp add: append_supported_eq list_all_iff)
next
  case (PDict items)
  define ys where "ys = store_supported [] (map (map_prod id to_json_value) items)"
  have "list_all (\<lambda>(k, c). is_str_key k \<and> string_keys c) ys"
    unfolding list_all_iff
  proof
    fix p assume p: "p \<in> set ys"
    obtain k c where kc: "p = (k, c)" by (cases p)
    from p kc have "(k, c) \<in> set (store_supported [] (map (map_prod id to_json_value) items))"
      by (simp add: ys_def)
    from store_supported_members[OF this] obtain v where
      "(k, v) \<in> set items" "c = to_json_value v" "is_str_key k"
      by auto
    then show "case p of (k, c) \<Rightarrow> is_str_key k \<and> string_keys c"
      using PDict.IH[of "(k, v)" v] kc by auto
  qed
  then show ?case by (simp add: string_keys_items ys_def)
qed (simp_all add: UNSUPPORTED_def)

lemma those_map_Some: "(\<And>x. x \<in> set xs \<Longrightarrow> f x = Some x) \<Longrightarrow> those (map f xs) = Some xs"
  by (induction xs) auto

lemma load_object_stable:
  "distinct (map fst ys) \<Longrightarrow> fst ` set ys \<inter> fst ` set result = {} \<Longrightarrow>
   list_all (\<lambda>(k, c). is_str_key k \<and> f c = Some c) ys \<Longrightarrow>
   load_object frepr result (map (map_prod id f) ys) = Some (result @ ys)"
proof (induction ys arbitrary: result)
  case Nil
  then show ?case by simp
next
  case (Cons p ys)
  obtain k c where p: "p = (k, c)" by (cases p)
  from Cons.prems(3) p obtain s where k: "k = KStr s" and c: "f c = Some c"
    by (cases k) auto
  have fresh: "k \<notin> fst ` set result" using Cons.prems(2) p by auto
  have "load_object frepr (dict_set result k c) (map (map_prod id f) ys)
      = Some (dict_set result k c @ ys)"
  proof (rule Cons.IH)
    show "distinct (map fst ys)" using Cons.prems(1) by simp
    show "fst ` set ys \<inter> fst ` set (dict_set result k c) = {}"
      using Cons.prems(1,2) p by (auto simp: dict_set_keys)
    show "list_all (\<lambda>(k, c). is_str_key k \<and> f c = Some c) ys"
      using Cons.prems(3) by simp
  qed
  then show ?case using p k c fresh by (simp add: dict_set_fresh id_def)
qed

lemma json_roundtrip_to_json_value:
  "to_json_value v = UNSUPPORTED \<or> json_roundtrip frepr (to_json_value v) = Some (to_json_value v)"
proof (induction v)
  case (PList xs)
  have "those (map (json_roundtrip frepr) (filter (\<lambda>c. c \<noteq> UNSUPPORTED) (map to_json_value xs)))
      = Some (filter (\<lambda>c. c \<noteq> UNSUPPORTED) (map to_json_value xs))"
    by (rule those_map_Some) (use PList.IH in auto)
  then show ?case by (simp add: append_supported_eq)
next
  case (PTuple xs)
  have "those (map (json_roundtrip frepr) (filter (\<lambda>c. c \<noteq> UNSUPPORTED) (map to_json_value xs)))
      = Some (filter (\<lambda>c. c \<noteq> UNSUPPORTED) (map to_json_value xs))"
    by (rule those_map_Some) (use PTuple.IH in auto)
  then show ?case by (simp add: append_supported_eq)
next
  case (PDict items)
  define ys where "ys = store_supported [] (map (map_prod id to_json_value) items)"
  have dist: "distinct (map fst ys)"
    unfolding ys_def by (rule store_supported_distinct) simp
  have ok: "list_all (\<lambda>(k, c). is_str_key k \<and> json_roundtrip frepr c = Some c) ys"
    unfolding list_all_iff
  proof
    fix p assume p: "p \<in> set ys"
    obtain k c where kc: "p = (k, c)" by (cases p)
    from p kc have "(k, c) \<in> set (store_supported [] (map (map_prod id to_json_value) items))"
      by (simp add: ys_def)
    from store_supported_members[OF this] obtain v where
      "(k, v) \<in> set items" "c = to_json_value v" "is_str_key k" "c \<noteq> UNSUPPORTED"
      by auto
    then show "case p of (k, c) \<Rightarrow> is_str_key k \<and> json_roundtrip frepr c = Some c"
      using PDict.IH[of "(k, v)" v] kc by auto
  qed
  have "load_object frepr [] (map (map_prod id (json_roundtrip frepr)) ys) = Some ([] @ ys)"
    by (rule load_object_stable) (use dist ok in simp_all)
  then show ?case by (simp add: ys_def)
qed (simp_all add: UNSUPPORTED_def)

lemma serialize_result_value:
  "serialize_result frepr v =
     Inr (if v = PNone \<or> to_json_value v = UNSUPPORTED then PDict [] else to_json_value v)"
proof (cases "v = PNone \<or> to_json_value v = UNSUPPORTED")
  case True
  then show ?thesis
    by (auto simp: serialize_result_def sanitize_for_ipc_def UNSUPPORTED_def Let_def)
next
  case False
  then have "json_roundtrip frepr (to_json_value v) = Some (to_json_value v)"
    using json_roundtrip_to_json_value[of v frepr] by simp
  then show ?thesis using False
    by (simp add: serialize_result_def sanitize_for_ipc_def Let_def)
qed

text \<open>
  C3: for any value \<open>v\<close> returned by a handler, the runtime emits a \<^verbatim>\<open>result\<close>
  message (serialization never raises) whose payload holds no non-finite float and no
  mapping entry under a non-string key; and for the result \<^verbatim>\<open>None\<close> the payload
  is the empty object.
\<close>

theorem result_payload_sanitized:
  "(\<exists>p. execute_start_finish rt st (Returned v) =
          send_message
            (PDict [(KStr ''type'', PStr ''result''), (KStr ''result'', p),
                    (KStr ''durationMs'', PInt (duration_ms rt)),
                    (KStr ''resourceUsage'', resource_usage rt)]) st
      \<and> finite_floats p \<and> string_keys p)
   \<and> execute_start_finish rt st (Returned PNone) =
          send_message
            (PDict [(KStr ''type'', PStr ''result''), (KStr ''result'', PDict []),
                    (KStr ''durationMs'', PInt (duration_ms rt)),
                    (KStr ''resourceUsage'', resource_usage rt)]) st"
proof
  let ?p = "if v = PNone \<or> to_json_value v = UNSUPPORTED then PDict [] else to_json_value v"
  have "finite_floats ?p" by (simp add: to_json_value_finite_floats)
  moreover have "string_keys ?p" by (simp add: to_json_value_string_keys)
  moreover have "execute_start_finish rt st (Returned v) =
          send_message
            (PDict [(KStr ''type'', PStr ''result''), (KStr ''result'', ?p),
                    (KStr ''durationMs'', PInt (duration_ms rt)),
                    (KStr ''resourceUsage'', resource_usage rt)]) st"
    by (simp add: execute_start_finish_def serialize_result_value)
  ultimately show "\<exists>p. execute_start_finish rt st (Returned v) =
          send_message
            (PDict [(KStr ''type'', PStr ''result''), (KStr ''result'', p),
                    (KStr ''durationMs'', PInt (duration_ms rt)),
                    (KStr ''resourceUsage'', resource_usage rt)]) st
      \<and> finite_floats p \<and> string_keys p"
    by blast
  show "execute_start_finish rt st (Returned PNone) =
          send_message
            (PDict [(KStr ''type'', PStr ''result''), (KStr ''result'', PDict []),
                    (KStr ''durationMs'', PInt (duration_ms rt)),
                    (KStr ''resourceUsage'', resource_usage rt)]) st"
    by (simp add: execute_start_finish_def serialize_result_value)
qed

text \<open>
  The theorem at the handler result \<^verbatim>\<open>{1: "a", "k": [inf, 2]}\<close>, whose payload is
  \<^verbatim>\<open>{"k": [2]}\<close>, and at \<^verbatim>\<open>None\<close>.
\<close>

theorem result_payload_witness:
  "execute_start_finish sample_runtime sample_state
       (Returned (PDict [(KInt 1, PStr ''a''), (KStr ''k'', PList [PFloat PosInf, PInt 2])])) =
     send_message
       (PDict [(KStr ''type'', PStr ''result''),
               (KStr ''result'', PDict [(KStr ''k'', PList [PInt 2])]),
               (KStr ''durationMs'', PInt 12), (KStr ''resourceUsage'', PNone)]) sample_state
   \<and> execute_start_finish sample_runtime sample_state (Returned PNone) =
     send_message
       (PDict [(KStr ''type'', PStr ''result''), (KStr ''result'', PDict []),
               (KStr ''durationMs'', PInt 12), (KStr ''resourceUsage'', PNone)]) sample_state"
  using result_payload_sanitized [of sample_runtime sample_state
      "PDict [(KInt 1, PStr ''a''), (KStr ''k'', PList [PFloat PosInf, PInt 2])]"]
  by (simp add: execute_start_finish_def serialize_result_def sanitize_for_ipc_def
      sample_runtime_def UNSUPPORTED_def Let_def)

section \<open>The end of the handler: cancellation and exceptions\<close>

text \<open>
  Completing a waiter touches the store of futures only, and only a pending waiter.
\<close>

lemma set_exception_fields:
  "pending_requests (set_exception f m st) = pending_requests st"
  "stdout_lines (set_exception f m st) = stdout_lines st"
  "cancel_reason (set_exception f m st) = cancel_reason st"
  "current_handler_task (set_exception f m st) = current_handler_task st"
  by (simp_all add: set_exception_def)

lemma set_result_fields:
  "pending_requests (set_result f v st) = pending_requests st"
  "stdout_lines (set_result f v st) = stdout_lines st"
  "cancel_reason (set_result f v st) = cancel_reason st"
  "current_handler_task (set_result f v st) = current_handler_task st"
  by (simp_all add: set_result_def)

lemma set_exception_futures:
  "futures (set_exception f m st) g =
     (if g = f \<and> futures st f = FPending then FException m else futures st g)"
  by (simp add: set_exception_def future_done_def)

lemma set_result_futures:
  "futures (set_result f v st) g =
     (if g = f \<and> futures st f = FPending then FResult v else futures st g)"
  by (simp add: set_result_def future_done_def)

lemma fail_pending_fields:
  "pending_requests (fail_pending table m st) = pending_requests st"
  "stdout_lines (fail_pending table m st) = stdout_lines st"
  "cancel_reason (fail_pending table m st) = cancel_reason st"
  "current_handler_task (fail_pending table m st) = current_handler_task st"
  by (induction table m st rule: fail_pending.induct) (simp_all add: set_exception_fields)

lemma fail_pending_futures:
  "futures (fail_pending table m st) g =
     (if g \<in> (snd \<circ> snd) ` set table \<and> futures st g = FPending
      then FException m else futures st g)"
proof (induction table m st rule: fail_pending.induct)
  case (1 message st)
  then show ?case by simp
next
  case (2 request_id kind future rest message st)
  then show ?case by (auto simp: set_exception_futures)
qed

lemma send_message_fields:
  "pending_requests (send_message msg st) = pending_requests st"
  "futures (send_message msg st) = futures st"
  "stdout_lines (send_message msg st) = stdout_lines st @ [msg]"
  by (simp_all add: send_message_def)




text \<open>
  The log call of the exception branch: its metadata serializes, and the task id is
  added to it.
\<close>

lemma log_traceback:
  "log frepr tid level message (PDict [(KStr ''error'', PStr tb)]) st =
     send_message
       (PDict [(KStr ''type'', PStr ''log''), (KStr ''level'', PStr level),
               (KStr ''message'', PStr message),
               (KStr ''meta'', PDict [(KStr ''error'', PStr tb), (KStr ''sandboxTaskId'', tid)])])
       st"
  by (simp add: log_def normalize_meta_def sanitize_for_ipc_def or_default_def setdefault_def
      dict_contains_def Let_def)




section \<open>The update request\<close>

text \<open>
  \<^verbatim>\<open>normalize_updates\<close> yields at most five entries, in a fixed order, under
  distinct string keys; the round trip of such a dictionary succeeds exactly when the
  round trip of each value does, and acts value by value.
\<close>

lemma normalize_updates_entries:
  "normalize_updates updates =
     supported_entry updates ''parameters'' @ raw_entry updates ''logsUrl''
       @ supported_entry updates ''metrics'' @ supported_entry updates ''context''
       @ raw_entry updates ''timeoutMs''"
  by (simp add: normalize_updates_def supported_entry_def raw_entry_def Let_def)

lemma load_object_str_keys:
  "distinct (map fst ys) \<Longrightarrow> fst ` set ys \<inter> fst ` set result = {} \<Longrightarrow>
   list_all (\<lambda>(k, v). is_str_key k) ys \<Longrightarrow>
   load_object frepr result (map (map_prod id f) ys) =
     (if list_all (\<lambda>(k, v). f v \<noteq> None) ys
      then Some (result @ map (\<lambda>(k, v). (k, the (f v))) ys) else None)"
proof (induction ys arbitrary: result)
  case Nil
  then show ?case by simp
next
  case (Cons p ys)
  obtain k v where p: "p = (k, v)" by (cases p)
  from Cons.prems(3) p obtain s where k: "k = KStr s" by (cases k) auto
  have fresh: "k \<notin> fst ` set result" using Cons.prems(2) p by auto
  show ?case
  proof (cases "f v")
    case None
    then show ?thesis using p k by simp
  next
    case (Some c)
    have "load_object frepr (dict_set result k c) (map (map_prod id f) ys) =
      (if list_all (\<lambda>(k, v). f v \<noteq> None) ys
       then Some (dict_set result k c @ map (\<lambda>(k, v). (k, the (f v))) ys) else None)"
    proof (rule Cons.IH)
      show "distinct (map fst ys)" using Cons.prems(1) by simp
      show "fst ` set ys \<inter> fst ` set (dict_set result k c) = {}"
        using Cons.prems(1,2) p by (auto simp: dict_set_keys)
      show "list_all (\<lambda>(k, v). is_str_key k) ys" using Cons.prems(3) by simp
    qed
    then show ?thesis using p k Some fresh by (simp add: dict_set_fresh id_def)
  qed
qed

lemma normalize_updates_keys:
  "distinct (map fst (normalize_updates updates))"
  "list_all (\<lambda>(k, v). is_str_key k) (normalize_updates updates)"
  by (auto simp add: normalize_updates_entries supported_entry_def raw_entry_def)

lemma map_of_normalize_updates:
  "map_of (normalize_updates updates) k =
     (if k = KStr ''parameters'' \<or> k = KStr ''metrics'' \<or> k = KStr ''context'' then
        (case k of KStr name \<Rightarrow>
           if dict_contains updates name \<and> to_json_value (dict_get updates name) \<noteq> UNSUPPORTED
           then Some (to_json_value (dict_get updates name)) else None
         | _ \<Rightarrow> None)
      else if k = KStr ''logsUrl'' \<or> k = KStr ''timeoutMs'' then
        (case k of KStr name \<Rightarrow>
           if dict_contains updates name then Some (dict_get updates name) else None
         | _ \<Rightarrow> None)
      else None)"
  by (simp add: normalize_updates_entries supported_entry_def raw_entry_def map_add_def
      split: option.splits)

lemma roundtrip_normalize_updates:
  "json_roundtrip frepr (PDict (normalize_updates updates)) =
     (if list_all (\<lambda>(k, v). json_roundtrip frepr v \<noteq> None) (normalize_updates updates)
      then Some (PDict (map (\<lambda>(k, v). (k, the (json_roundtrip frepr v))) (normalize_updates updates)))
      else None)"
  using load_object_str_keys[where ys = "normalize_updates updates" and result = "[]"
      and f = "json_roundtrip frepr" and frepr = frepr]
  by (simp add: normalize_updates_keys)

lemma map_of_map_values:
  "map_of (map (\<lambda>(k, v). (k, g v)) xs) k = map_option g (map_of xs k)"
  by (induction xs) auto

lemma list_all_map_of:
  "list_all (\<lambda>(k, v). P v) xs \<Longrightarrow> map_of xs k = Some v \<Longrightarrow> P v"
  by (induction xs) (auto split: if_splits)

lemma update_request_sent:
  assumes ok: "snd (JobContext_update frepr st rid fut updates) = None"
  defines "sent \<equiv> map (\<lambda>(k, v). (k, the (json_roundtrip frepr v))) (normalize_updates updates)"
  shows "stdout_lines (fst (JobContext_update frepr st rid fut updates)) =
           stdout_lines st @
             [PDict [(KStr ''type'', PStr ''update-request''), (KStr ''requestId'', PStr rid),
                     (KStr ''updates'', PDict sent)]]"
    and "list_all (\<lambda>(k, v). json_roundtrip frepr v \<noteq> None) (normalize_updates updates)"
proof -
  have all: "list_all (\<lambda>(k, v). json_roundtrip frepr v \<noteq> None) (normalize_updates updates)"
  proof (rule ccontr)
    assume "\<not> ?thesis"
    then have "json_roundtrip frepr (PDict (normalize_updates updates)) = None"
      by (simp only: roundtrip_normalize_updates if_False)
    then show False using ok
      by (simp add: JobContext_update_def sanitize_for_ipc_def Let_def)
  qed
  then show "list_all (\<lambda>(k, v). json_roundtrip frepr v \<noteq> None) (normalize_updates updates)" .
  have "json_roundtrip frepr (PDict (normalize_updates updates)) = Some (PDict sent)"
    using all by (simp only: roundtrip_normalize_updates if_True sent_def)
  then show "stdout_lines (fst (JobContext_update frepr st rid fut updates)) =
           stdout_lines st @
             [PDict [(KStr ''type'', PStr ''update-request''), (KStr ''requestId'', PStr rid),
                     (KStr ''updates'', PDict sent)]]"
    by (simp add: JobContext_update_def sanitize_for_ipc_def Let_def send_message_def)
qed

text \<open>
  C6 as stated fails at \<^verbatim>\<open>update({"parameters": nan, "timeoutMs": inf})\<close>: the
  whitelisted key \<^verbatim>\<open>parameters\<close> is present in the input and absent from the
  message, and the value sent under \<^verbatim>\<open>timeoutMs\<close> is a non-finite float.
\<close>

theorem update_request_counterexample:
  "stdout_lines (fst (JobContext_update (float_repr sample_runtime) sample_state ''r3'' 2
       [(KStr ''parameters'', PFloat NaN), (KStr ''timeoutMs'', PFloat PosInf)])) =
     [PDict [(KStr ''type'', PStr ''update-request''), (KStr ''requestId'', PStr ''r3''),
             (KStr ''updates'', PDict [(KStr ''timeoutMs'', PFloat PosInf)])]]
   \<and> \<not> finite_floats (PDict [(KStr ''timeoutMs'', PFloat PosInf)])"
  by (simp add: JobContext_update_def normalize_updates_def dict_contains_def dict_get_def
      sanitize_for_ipc_def send_message_def sample_state_def UNSUPPORTED_def Let_def)

text \<open>
  C6, amended: whenever \<^verbatim>\<open>update(updates)\<close> sends its request (serialization did
  not raise), the \<^verbatim>\<open>updates\<close> object of the message holds whitelisted keys only;
  \<^verbatim>\<open>parameters\<close>, \<^verbatim>\<open>metrics\<close> and \<^verbatim>\<open>context\<close> are in it exactly when they
  are present in the input with a value the sanitizer supports, and carry the
  sanitized value; \<^verbatim>\<open>logsUrl\<close> and \<^verbatim>\<open>timeoutMs\<close> are in it exactly when they
  are present in the input, and carry the JSON round trip of the input value, not
  its sanitized form.
\<close>

theorem update_request_whitelist:
  "snd (JobContext_update frepr st rid fut updates) = None \<longrightarrow>
   (\<exists>sent.
      stdout_lines (fst (JobContext_update frepr st rid fut updates)) =
        stdout_lines st @
          [PDict [(KStr ''type'', PStr ''update-request''), (KStr ''requestId'', PStr rid),
                  (KStr ''updates'', PDict sent)]]
    \<and> (\<forall>k v. map_of sent k = Some v \<longrightarrow>
           k \<in> {KStr ''parameters'', KStr ''logsUrl'', KStr ''metrics'', KStr ''context'',
                 KStr ''timeoutMs''})
    \<and> (\<forall>name \<in> {''parameters'', ''metrics'', ''context''}.
           map_of sent (KStr name) =
             (if dict_contains updates name
                 \<and> to_json_value (dict_get updates name) \<noteq> UNSUPPORTED
              then Some (to_json_value (dict_get updates name)) else None))
    \<and> (\<forall>name \<in> {''logsUrl'', ''timeoutMs''}.
           map_of sent (KStr name) =
             (if dict_contains updates name
              then json_roundtrip frepr (dict_get updates name) else None)))"
proof
  assume ok: "snd (JobContext_update frepr st rid fut updates) = None"
  define sent where
    "sent = map (\<lambda>(k, v). (k, the (json_roundtrip frepr v))) (normalize_updates updates)"
  note facts = update_request_sent[OF ok, folded sent_def]
  have look: "map_of sent k = map_option (\<lambda>v. the (json_roundtrip frepr v))
      (map_of (normalize_updates updates) k)" for k
    unfolding sent_def by (rule map_of_map_values)
  have fixed: "the (json_roundtrip frepr (to_json_value v)) = to_json_value v"
    if "to_json_value v \<noteq> UNSUPPORTED" for v
    using json_roundtrip_to_json_value[of v frepr] that by simp
  have raw: "Some (the (json_roundtrip frepr v)) = json_roundtrip frepr v"
    if "map_of (normalize_updates updates) k = Some v" for k v
    using list_all_map_of[OF facts(2) that] by auto
  have keys: "\<forall>k v. map_of sent k = Some v \<longrightarrow>
           k \<in> {KStr ''parameters'', KStr ''logsUrl'', KStr ''metrics'', KStr ''context'',
                 KStr ''timeoutMs''}"
    by (auto simp: look map_of_normalize_updates split: if_splits)
  have sup: "\<forall>name \<in> {''parameters'', ''metrics'', ''context''}.
           map_of sent (KStr name) =
             (if dict_contains updates name
                 \<and> to_json_value (dict_get updates name) \<noteq> UNSUPPORTED
              then Some (to_json_value (dict_get updates name)) else None)"
    by (auto simp: look map_of_normalize_updates fixed)
  have rw: "\<forall>name \<in> {''logsUrl'', ''timeoutMs''}.
           map_of sent (KStr name) =
             (if dict_contains updates name
              then json_roundtrip frepr (dict_get updates name) else None)"
  proof
    fix name assume n: "name \<in> {''logsUrl'', ''timeoutMs''}"
    have m: "map_of (normalize_updates updates) (KStr name) =
        (if dict_contains updates name then Some (dict_get updates name) else None)"
      using n by (auto simp: map_of_normalize_updates)
    show "map_of sent (KStr name) =
             (if dict_contains updates name
              then json_roundtrip frepr (dict_get updates name) else None)"
    proof (cases "dict_contains updates name")
      case True
      then show ?thesis using m raw[of "KStr name" "dict_get updates name"] by (simp add: look)
    next
      case False
      then show ?thesis using m by (simp add: look)
    qed
  qed
  show "\<exists>sent.
      stdout_lines (fst (JobContext_update frepr st rid fut updates)) =
        stdout_lines st @
          [PDict [(KStr ''type'', PStr ''update-request''), (KStr ''requestId'', PStr rid),
                  (KStr ''updates'', PDict sent)]]
    \<and> (\<forall>k v. map_of sent k = Some v \<longrightarrow>
           k \<in> {KStr ''parameters'', KStr ''logsUrl'', KStr ''metrics'', KStr ''context'',
                 KStr ''timeoutMs''})
    \<and> (\<forall>name \<in> {''parameters'', ''metrics'', ''context''}.
           map_of sent (KStr name) =
             (if dict_contains updates name
                 \<and> to_json_value (dict_get updates name) \<noteq> UNSUPPORTED
              then Some (to_json_value (dict_get updates name)) else None))
    \<and> (\<forall>name \<in> {''logsUrl'', ''timeoutMs''}.
           map_of sent (KStr name) =
             (if dict_contains updates name
              then json_roundtrip frepr (dict_get updates name) else None))"
    using facts(1) keys sup rw by blast
qed

text \<open>
  The theorem at the update of scenario S4: \<^verbatim>\<open>parameters\<close> and \<^verbatim>\<open>logsUrl\<close> are
  sent, \<^verbatim>\<open>other\<close> is dropped.
\<close>

theorem update_request_whitelist_witness:
  "snd (JobContext_update (float_repr sample_runtime) sample_state ''r3'' 2
       [(KStr ''parameters'', PDict [(KStr ''x'', PInt 1)]), (KStr ''logsUrl'', PStr ''http://x''),
        (KStr ''other'', PStr ''dropped'')]) = None
   \<and> stdout_lines (fst (JobContext_update (float_repr sample_runtime) sample_state ''r3'' 2
       [(KStr ''parameters'', PDict [(KStr ''x'', PInt 1)]), (KStr ''logsUrl'', PStr ''http://x''),
        (KStr ''other'', PStr ''dropped'')])) =
     [PDict [(KStr ''type'', PStr ''update-request''), (KStr ''requestId'', PStr ''r3''),
             (KStr ''updates'',
                PDict [(KStr ''parameters'', PDict [(KStr ''x'', PInt 1)]),
                       (KStr ''logsUrl'', PStr ''http://x'')])]]"
  using update_request_whitelist [of "float_repr sample_runtime" sample_state "''r3''" 2
      "[(KStr ''parameters'', PDict [(KStr ''x'', PInt 1)]), (KStr ''logsUrl'', PStr ''http://x''),
        (KStr ''other'', PStr ''dropped'')]"]
  by (simp add: JobContext_update_def normalize_updates_def dict_contains_def dict_get_def
      sanitize_for_ipc_def send_message_def sample_state_def UNSUPPORTED_def Let_def)

section \<open>The pending-request table\<close>

text \<open>
  Lookups after a removal and after a store; what cancelling the handler task does;
  and what one parent message does to the table and to the waiters, by the kind of
  the message.
\<close>

lemma map_of_filter_same: "map_of (filter (\<lambda>entry. fst entry \<noteq> k) table) k = None"
  by (induction table) auto

lemma map_of_filter_other:
  "k' \<noteq> k \<Longrightarrow> map_of (filter (\<lambda>entry. fst entry \<noteq> k) table) k' = map_of table k'"
  by (induction table) auto

lemma map_of_dict_set: "map_of (dict_set table k v) k' = (if k' = k then Some v else map_of table k')"
  by (induction table) auto

lemma cancel_futures_at:
  "cancel_futures reach futs g =
     (if g \<in> set reach \<and> futs g = FPending then FCancelled else futs g)"
  by (induction reach futs rule: cancel_futures.induct) auto

lemma task_cancel_fields:
  "pending_requests (task_cancel task st) = pending_requests st"
  "stdout_lines (task_cancel task st) = stdout_lines st"
  "cancel_reason (task_cancel task st) = cancel_reason st"
  by (simp_all add: task_cancel_def)

lemma task_cancel_futures:
  "futures (task_cancel task st) g = futures st g
   \<or> (futures st g = FPending \<and> futures (task_cancel task st) g = FCancelled)"
  by (simp add: task_cancel_def cancel_futures_at)

lemma handle_not_response:
  "\<not> is_response m \<Longrightarrow> dict_get m ''type'' \<noteq> PStr ''cancel'' \<Longrightarrow>
   handle_parent_message st m = (st, None)"
  by (simp add: handle_parent_message_def is_response_def Let_def)

lemma handle_cancel:
  "dict_get m ''type'' = PStr ''cancel'' \<Longrightarrow>
   handle_parent_message st m =
     (case current_handler_task st of
        None \<Rightarrow> (st\<lparr>cancel_reason := dict_get m ''reason''\<rparr>, None)
      | Some task \<Rightarrow> (task_cancel task (st\<lparr>cancel_reason := dict_get m ''reason''\<rparr>), None))"
  by (simp add: handle_parent_message_def Let_def)

lemma handle_cancel_table:
  "dict_get m ''type'' = PStr ''cancel'' \<Longrightarrow>
   pending_requests (fst (handle_parent_message st m)) = pending_requests st"
  by (simp add: handle_cancel task_cancel_fields split: option.splits)

lemma handle_cancel_futures:
  "dict_get m ''type'' = PStr ''cancel'' \<Longrightarrow>
   futures (fst (handle_parent_message st m)) g = futures st g
   \<or> (futures st g = FPending \<and> futures (fst (handle_parent_message st m)) g = FCancelled)"
  using task_cancel_futures[of _ "st\<lparr>cancel_reason := dict_get m ''reason''\<rparr>" g]
  by (auto simp add: handle_cancel split: option.splits)

lemma known_or_unknown:
  "(\<forall>rid. dict_get m ''requestId'' = PStr rid \<longrightarrow> map_of table rid = None)
   \<or> (\<exists>rid kind g. dict_get m ''requestId'' = PStr rid \<and> map_of table rid = Some (kind, g))"
  by (metis not_Some_eq surj_pair)

lemma handle_response_unknown:
  "is_response m \<Longrightarrow>
   \<forall>rid. dict_get m ''requestId'' = PStr rid \<longrightarrow> map_of (pending_requests st) rid = None \<Longrightarrow>
   fst (handle_parent_message st m) = st"
  by (auto simp: handle_parent_message_def is_response_def Let_def pending_pop_def
      split: option.splits pyval.splits prod.splits)

lemma handle_response_known:
  assumes "is_response m" "dict_get m ''requestId'' = PStr rid"
    "map_of (pending_requests st) rid = Some (kind, f)"
  shows "pending_requests (fst (handle_parent_message st m)) =
           filter (\<lambda>entry. fst entry \<noteq> rid) (pending_requests st)"
    and "g \<noteq> f \<Longrightarrow> futures (fst (handle_parent_message st m)) g = futures st g"
    and "futures st f = FPending \<Longrightarrow> resolved_or_failed (futures (fst (handle_parent_message st m)) f)"
    and "futures st f \<noteq> FPending \<Longrightarrow> futures (fst (handle_parent_message st m)) f = futures st f"
  using assms
  by (auto simp: handle_parent_message_def is_response_def Let_def pending_pop_def
      set_result_fields set_exception_fields set_result_futures set_exception_futures)

lemma handle_done_stable:
  assumes d: "future_done (futures st f)"
  shows "futures (fst (handle_parent_message st m)) f = futures st f"
proof (cases "dict_get m ''type'' = PStr ''cancel''")
  case True
  then show ?thesis using handle_cancel_futures[OF True, of st f] d
    by (auto simp: future_done_def)
next
  case False
  show ?thesis
  proof (cases "is_response m")
    case False
    then show ?thesis using \<open>dict_get m ''type'' \<noteq> PStr ''cancel''\<close>
      by (simp add: handle_not_response)
  next
    case True
    show ?thesis
    proof (cases "\<exists>rid kind g. dict_get m ''requestId'' = PStr rid
        \<and> map_of (pending_requests st) rid = Some (kind, g)")
      case False
      then have "fst (handle_parent_message st m) = st"
        using known_or_unknown[of m "pending_requests st"] handle_response_unknown[OF \<open>is_response m\<close>]
        by blast
      then show ?thesis by simp
    next
      case True
      then obtain rid kind g where k: "dict_get m ''requestId'' = PStr rid"
        "map_of (pending_requests st) rid = Some (kind, g)" by blast
      show ?thesis
        using handle_response_known(2,4)[OF \<open>is_response m\<close> k] d
        by (cases "f = g") (auto simp: future_done_def)
    qed
  qed
qed

lemma handle_changed_waiter:
  assumes ch: "futures (fst (handle_parent_message st m)) f \<noteq> futures st f"
    and rf: "resolved_or_failed (futures (fst (handle_parent_message st m)) f)"
  shows "\<exists>rid kind. is_response m \<and> dict_get m ''requestId'' = PStr rid
        \<and> map_of (pending_requests st) rid = Some (kind, f)
        \<and> futures st f = FPending
        \<and> map_of (pending_requests (fst (handle_parent_message st m))) rid = None"
proof (cases "dict_get m ''type'' = PStr ''cancel''")
  case True
  then show ?thesis using handle_cancel_futures[OF True, of st f] ch rf by auto
next
  case False
  have resp: "is_response m"
    using ch False by (cases "is_response m") (auto simp: handle_not_response)
  have "\<exists>rid kind g. dict_get m ''requestId'' = PStr rid
        \<and> map_of (pending_requests st) rid = Some (kind, g)"
  proof (rule ccontr)
    assume "\<not> ?thesis"
    then have "fst (handle_parent_message st m) = st"
      using known_or_unknown[of m "pending_requests st"] handle_response_unknown[OF resp]
      by blast
    then show False using ch by simp
  qed
  then obtain rid kind g where k: "dict_get m ''requestId'' = PStr rid"
    "map_of (pending_requests st) rid = Some (kind, g)" by blast
  have fg: "f = g" using handle_response_known(2)[OF resp k, of f] ch by auto
  have pend: "futures st f = FPending"
    using handle_response_known(4)[OF resp k] ch fg by auto
  have "map_of (pending_requests (fst (handle_parent_message st m))) rid = None"
    by (simp add: handle_response_known(1)[OF resp k] map_of_filter_same)
  then show ?thesis using resp k fg pend by blast
qed

lemma handle_keeps_others:
  assumes "map_of (pending_requests st) rid = Some entry"
    and "\<not> (is_response m \<and> dict_get m ''requestId'' = PStr rid)"
  shows "map_of (pending_requests (fst (handle_parent_message st m))) rid = Some entry"
proof (cases "dict_get m ''type'' = PStr ''cancel''")
  case True
  then show ?thesis using assms(1) by (simp add: handle_cancel_table)
next
  case False
  show ?thesis
  proof (cases "is_response m")
    case False
    then show ?thesis using \<open>dict_get m ''type'' \<noteq> PStr ''cancel''\<close> assms(1)
      by (simp add: handle_not_response)
  next
    case True
    then have ne: "dict_get m ''requestId'' \<noteq> PStr rid" using assms(2) by simp
    show ?thesis
    proof (cases "\<exists>r kind g. dict_get m ''requestId'' = PStr r
        \<and> map_of (pending_requests st) r = Some (kind, g)")
      case False
      then have "fst (handle_parent_message st m) = st"
        using known_or_unknown[of m "pending_requests st"] handle_response_unknown[OF \<open>is_response m\<close>]
        by blast
      then show ?thesis using assms(1) by simp
    next
      case True
      then obtain r kind g where k: "dict_get m ''requestId'' = PStr r"
        "map_of (pending_requests st) r = Some (kind, g)" by blast
      then have "rid \<noteq> r" using ne by auto
      then show ?thesis
        using assms(1) by (simp add: handle_response_known(1)[OF \<open>is_response m\<close> k] map_of_filter_other)
    qed
  qed
qed

lemma dispatch_done_stable:
  "future_done (futures st f) \<Longrightarrow> futures (fst (dispatch_messages st queue)) f = futures st f"
proof (induction st queue rule: dispatch_messages.induct)
  case (1 st)
  then show ?case by simp
next
  case (2 st message queue)
  show ?case
  proof (cases "dict_get message ''_internal'' = PStr ''shutdown''")
    case True
    then show ?thesis by simp
  next
    case False
    obtain st' err where h: "handle_parent_message st message = (st', err)"
      by (cases "handle_parent_message st message")
    have keep: "futures st' f = futures st f"
      using handle_done_stable[OF "2.prems", of message] h by simp
    show ?thesis
    proof (cases err)
      case None
      have "futures (fst (dispatch_messages st' queue)) f = futures st' f"
        using "2.IH"[OF False h[symmetric] None] "2.prems" keep by simp
      then show ?thesis using False h None keep by simp
    next
      case (Some e)
      then show ?thesis using False h keep by simp
    qed
  qed
qed

lemma update_registers:
  "snd (JobContext_update frepr st rid fut updates) = None \<Longrightarrow>
   map_of (pending_requests (fst (JobContext_update frepr st rid fut updates))) rid = Some (''update'', fut)
   \<and> futures (fst (JobContext_update frepr st rid fut updates)) fut = FPending"
  by (auto simp: JobContext_update_def Let_def send_message_def map_of_dict_set split: sum.splits)

lemma update_keeps_others:
  "rid' \<noteq> rid \<Longrightarrow>
     map_of (pending_requests (fst (JobContext_update frepr st rid fut updates))) rid'
       = map_of (pending_requests st) rid'"
  "f \<noteq> fut \<Longrightarrow> futures (fst (JobContext_update frepr st rid fut updates)) f = futures st f"
  by (auto simp: JobContext_update_def Let_def send_message_def map_of_dict_set split: sum.splits)

lemma resolve_secret_registers:
  "map_of (pending_requests (fst (JobContext_resolveSecret frepr st rid fut reference))) rid
     = Some (''resolve-secret'', fut)
   \<and> futures (fst (JobContext_resolveSecret frepr st rid fut reference)) fut = FPending"
  by (auto simp: JobContext_resolveSecret_def Let_def send_message_def map_of_dict_set
      split: sum.splits)

lemma resolve_secret_keeps_others:
  "rid' \<noteq> rid \<Longrightarrow>
     map_of (pending_requests (fst (JobContext_resolveSecret frepr st rid fut reference))) rid'
       = map_of (pending_requests st) rid'"
  "f \<noteq> fut \<Longrightarrow> futures (fst (JobContext_resolveSecret frepr st rid fut reference)) f = futures st f"
  by (auto simp: JobContext_resolveSecret_def Let_def send_message_def map_of_dict_set
      split: sum.splits)

lemma finish_done_stable:
  "future_done (futures st f) \<Longrightarrow> futures (execute_start_finish rt st outcome) f = futures st f"
  by (cases outcome)
     (auto simp: execute_start_finish_def handler_cancelled_def handler_failed_def Let_def
        send_message_fields fail_pending_fields fail_pending_futures log_traceback
        serialize_result_value future_done_def)

text \<open>
  C7. A waiter that is done is never changed again, neither by any sequence of
  parent messages nor by the drain at the end of the handler. Sending a request
  registers its id with a new pending waiter and leaves every other id and every
  other waiter as they were. A response to an id of the table removes exactly that
  id and touches exactly its waiter, which it resolves or fails if it was pending
  and leaves alone if it was already done. Conversely a parent message resolves or
  fails a waiter only if it is a response to the id under which that waiter is
  registered, the waiter was pending, and the id leaves the table in the same step:
  so at most one waiter is completed per id, and the id is in the table from the
  send until that completion. Any other message keeps an id in the table. A response
  whose request id is not in the table (unknown, or already removed) leaves the
  table and every waiter unchanged.
\<close>

theorem pending_request_discipline:
  "(future_done (futures st f) \<longrightarrow>
      futures (fst (dispatch_messages st queue)) f = futures st f
      \<and> futures (execute_start_finish rt st outcome) f = futures st f)
   \<and> (snd (JobContext_update frepr st rid fut updates) = None \<longrightarrow>
        map_of (pending_requests (fst (JobContext_update frepr st rid fut updates))) rid
          = Some (''update'', fut)
        \<and> futures (fst (JobContext_update frepr st rid fut updates)) fut = FPending)
   \<and> map_of (pending_requests (fst (JobContext_resolveSecret frepr st rid fut reference))) rid
        = Some (''resolve-secret'', fut)
   \<and> futures (fst (JobContext_resolveSecret frepr st rid fut reference)) fut = FPending
   \<and> (other \<noteq> rid \<longrightarrow>
        map_of (pending_requests (fst (JobContext_update frepr st rid fut updates))) other
          = map_of (pending_requests st) other
        \<and> map_of (pending_requests (fst (JobContext_resolveSecret frepr st rid fut reference))) other
          = map_of (pending_requests st) other)
   \<and> (f \<noteq> fut \<longrightarrow>
        futures (fst (JobContext_update frepr st rid fut updates)) f = futures st f
        \<and> futures (fst (JobContext_resolveSecret frepr st rid fut reference)) f = futures st f)
   \<and> (is_response m \<and> dict_get m ''requestId'' = PStr rid
        \<and> map_of (pending_requests st) rid = Some (kind, f) \<longrightarrow>
        map_of (pending_requests (fst (handle_parent_message st m))) rid = None
        \<and> (\<forall>r. r \<noteq> rid \<longrightarrow>
              map_of (pending_requests (fst (handle_parent_message st m))) r
                = map_of (pending_requests st) r)
        \<and> (\<forall>g. g \<noteq> f \<longrightarrow> futures (fst (handle_parent_message st m)) g = futures st g)
        \<and> (if futures st f = FPending
            then resolved_or_failed (futures (fst (handle_parent_message st m)) f)
            else futures (fst (handle_parent_message st m)) f = futures st f))
   \<and> (futures (fst (handle_parent_message st m)) f \<noteq> futures st f
        \<and> resolved_or_failed (futures (fst (handle_parent_message st m)) f) \<longrightarrow>
        (\<exists>r k. is_response m \<and> dict_get m ''requestId'' = PStr r
           \<and> map_of (pending_requests st) r = Some (k, f)
           \<and> futures st f = FPending
           \<and> map_of (pending_requests (fst (handle_parent_message st m))) r = None))
   \<and> (map_of (pending_requests st) rid = Some entry
        \<and> \<not> (is_response m \<and> dict_get m ''requestId'' = PStr rid) \<longrightarrow>
        map_of (pending_requests (fst (handle_parent_message st m))) rid = Some entry)
   \<and> (is_response m
        \<and> (\<forall>r. dict_get m ''requestId'' = PStr r \<longrightarrow> map_of (pending_requests st) r = None) \<longrightarrow>
        pending_requests (fst (handle_parent_message st m)) = pending_requests st
        \<and> futures (fst (handle_parent_message st m)) = futures st)"
proof (intro conjI impI)
  assume "future_done (futures st f)"
  then show "futures (fst (dispatch_messages st queue)) f = futures st f"
    by (rule dispatch_done_stable)
next
  assume "future_done (futures st f)"
  then show "futures (execute_start_finish rt st outcome) f = futures st f"
    by (rule finish_done_stable)
next
  assume ok: "snd (JobContext_update frepr st rid fut updates) = None"
  show "map_of (pending_requests (fst (JobContext_update frepr st rid fut updates))) rid
          = Some (''update'', fut)"
    using update_registers[OF ok] by blast
  show "futures (fst (JobContext_update frepr st rid fut updates)) fut = FPending"
    using update_registers[OF ok] by blast
next
  show "map_of (pending_requests (fst (JobContext_resolveSecret frepr st rid fut reference))) rid
        = Some (''resolve-secret'', fut)"
    using resolve_secret_registers by blast
next
  show "futures (fst (JobContext_resolveSecret frepr st rid fut reference)) fut = FPending"
    using resolve_secret_registers by blast
next
  assume "other \<noteq> rid"
  then show "map_of (pending_requests (fst (JobContext_update frepr st rid fut updates))) other
          = map_of (pending_requests st) other"
    by (rule update_keeps_others)
next
  assume "other \<noteq> rid"
  then show "map_of (pending_requests (fst (JobContext_resolveSecret frepr st rid fut reference))) other
          = map_of (pending_requests st) other"
    by (rule resolve_secret_keeps_others)
next
  assume "f \<noteq> fut"
  then show "futures (fst (JobContext_update frepr st rid fut updates)) f = futures st f"
    by (rule update_keeps_others)
next
  assume "f \<noteq> fut"
  then show "futures (fst (JobContext_resolveSecret frepr st rid fut reference)) f = futures st f"
    by (rule resolve_secret_keeps_others)
next
  assume a: "is_response m \<and> dict_get m ''requestId'' = PStr rid
        \<and> map_of (pending_requests st) rid = Some (kind, f)"
  then have r: "is_response m" and i: "dict_get m ''requestId'' = PStr rid"
    and e: "map_of (pending_requests st) rid = Some (kind, f)" by simp_all
  note known = handle_response_known[OF r i e]
  show "map_of (pending_requests (fst (handle_parent_message st m))) rid = None"
    by (simp add: known(1) map_of_filter_same)
  show "\<forall>r. r \<noteq> rid \<longrightarrow>
              map_of (pending_requests (fst (handle_parent_message st m))) r
                = map_of (pending_requests st) r"
    by (simp add: known(1) map_of_filter_other)
  show "\<forall>g. g \<noteq> f \<longrightarrow> futures (fst (handle_parent_message st m)) g = futures st g"
    using known(2) by blast
  show "if futures st f = FPending
            then resolved_or_failed (futures (fst (handle_parent_message st m)) f)
            else futures (fst (handle_parent_message st m)) f = futures st f"
    using known(3,4) by simp
next
  assume "futures (fst (handle_parent_message st m)) f \<noteq> futures st f
        \<and> resolved_or_failed (futures (fst (handle_parent_message st m)) f)"
  then show "\<exists>r k. is_response m \<and> dict_get m ''requestId'' = PStr r
           \<and> map_of (pending_requests st) r = Some (k, f)
           \<and> futures st f = FPending
           \<and> map_of (pending_requests (fst (handle_parent_message st m))) r = None"
    using handle_changed_waiter by blast
next
  assume "map_of (pending_requests st) rid = Some entry
        \<and> \<not> (is_response m \<and> dict_get m ''requestId'' = PStr rid)"
  then show "map_of (pending_requests (fst (handle_parent_message st m))) rid = Some entry"
    using handle_keeps_others by blast
next
  assume a: "is_response m
        \<and> (\<forall>r. dict_get m ''requestId'' = PStr r \<longrightarrow> map_of (pending_requests st) r = None)"
  then have "fst (handle_parent_message st m) = st"
    using handle_response_unknown by blast
  then show "pending_requests (fst (handle_parent_message st m)) = pending_requests st"
    and "futures (fst (handle_parent_message st m)) = futures st"
    by simp_all
qed

text \<open>
  The theorem on a state with two pending requests: a response to the first
  completes its waiter and removes its id, keeps the second, a cancelled waiter is
  left as it is, and a response to an unknown id changes nothing.
\<close>

theorem pending_request_discipline_witness:
  "futures (fst (dispatch_messages (sample_state\<lparr>futures := (\<lambda>_. FCancelled)\<rparr>)
       [update_response ''r1'' (PInt 5)])) 0 = FCancelled
   \<and> futures (fst (handle_parent_message sample_state (update_response ''r1'' (PInt 5)))) 0
        = FResult (PInt 5)
   \<and> futures (fst (handle_parent_message sample_state (update_response ''r1'' (PInt 5)))) 1
        = FPending
   \<and> map_of (pending_requests (fst (handle_parent_message sample_state
        (update_response ''r1'' (PInt 5))))) ''r1'' = None
   \<and> map_of (pending_requests (fst (handle_parent_message sample_state
        (update_response ''r1'' (PInt 5))))) ''r2'' = Some (''resolve-secret'', 1)
   \<and> map_of (pending_requests (fst (JobContext_update (float_repr sample_runtime) sample_state
        ''r3'' 2 []))) ''r3'' = Some (''update'', 2)
   \<and> map_of (pending_requests (fst (JobContext_update (float_repr sample_runtime) sample_state
        ''r3'' 2 []))) ''r1'' = Some (''update'', 0)
   \<and> pending_requests (fst (handle_parent_message sample_state
        (update_response ''r9'' (PInt 5)))) = pending_requests sample_state
   \<and> futures (fst (handle_parent_message sample_state
        (update_response ''r9'' (PInt 5)))) = futures sample_state"
  using pending_request_discipline [where st = "sample_state\<lparr>futures := (\<lambda>_. FCancelled)\<rparr>"
      and f = 0 and queue = "[update_response ''r1'' (PInt 5)]" and rt = sample_runtime
      and outcome = Cancelled and m = "update_response ''r9'' (PInt 5)"
      and frepr = "float_repr sample_runtime" and rid = "''r3''" and fut = 2 and updates = "[]"
      and reference = PNone and other = "''r1''" and kind = "''update''"
      and entry = "(''update'', 0)"]
    pending_request_discipline [where st = sample_state and f = 0 and queue = "[]"
      and rt = sample_runtime and outcome = Cancelled and m = "update_response ''r1'' (PInt 5)"
      and frepr = "float_repr sample_runtime" and rid = "''r1''" and fut = 2 and updates = "[]"
      and reference = PNone and other = "''r2''" and kind = "''update''"
      and entry = "(''update'', 0)"]
    pending_request_discipline [where st = sample_state and f = 0 and queue = "[]"
      and rt = sample_runtime and outcome = Cancelled and m = "update_response ''r1'' (PInt 5)"
      and frepr = "float_repr sample_runtime" and rid = "''r2''" and fut = 2 and updates = "[]"
      and reference = PNone and other = "''r1''" and kind = "''resolve-secret''"
      and entry = "(''resolve-secret'', 1)"]
    pending_request_discipline [where st = sample_state and f = 0 and queue = "[]"
      and rt = sample_runtime and outcome = Cancelled and m = "update_response ''r9'' (PInt 5)"
      and frepr = "float_repr sample_runtime" and rid = "''r3''" and fut = 2 and updates = "[]"
      and reference = PNone and other = "''r1''" and kind = "''update''"
      and entry = "(''update'', 0)"]
  by (simp add: sample_state_def sample_runtime_def update_response_def is_response_def
      handle_parent_message_def dict_get_def pending_pop_def set_result_def future_done_def
      JobContext_update_def normalize_updates_def dict_contains_def sanitize_for_ipc_def
      send_message_def Let_def)

section \<open>The path resolver\<close>

text \<open>
  C1: with \<open>R\<close> the realpath of the bundle root and \<open>C\<close> the realpath of the
  candidate, the resolver returns \<open>C\<close> when \<open>C\<close> is \<open>R\<close> or a descendant of it
  (prefix match bounded by the separator); otherwise, with a host root \<open>H\<close>
  configured, it returns \<open>C\<close> when \<open>C\<close> is \<open>H\<close> or a descendant, or else the
  translation of \<open>C\<close> under \<open>H\<close> when that translation is \<open>H\<close> or a descendant;
  in every remaining case it fails with the permission error.
\<close>

theorem ensure_within_bundle_decision:
  "(let R = realpath env bundle_dir; C = realpath env candidate;
        result = ensure_within_bundle env bundle_dir candidate
    in (equal_or_descendant R C \<longrightarrow> result = Inr C)
     \<and> (\<not> equal_or_descendant R C \<longrightarrow>
          (case host_root env of
             None \<Rightarrow> result = Inl outside_bundle
           | Some H \<Rightarrow>
               (equal_or_descendant H C \<longrightarrow> result = Inr C)
             \<and> (\<not> equal_or_descendant H C \<and> equal_or_descendant H (translate env H C) \<longrightarrow>
                  result = Inr (translate env H C))
             \<and> (\<not> equal_or_descendant H C \<and> \<not> equal_or_descendant H (translate env H C) \<longrightarrow>
                  result = Inl outside_bundle))))"
  by (simp add: ensure_within_bundle_def equal_or_descendant_def host_root_def translate_def
      Let_def split: option.splits)

text \<open>
  The theorem on each of its branches: inside the bundle, outside with no host root,
  under the host root, translated under the host root, and translated to a link that
  leaves the host root.
\<close>

theorem ensure_within_bundle_decision_witness:
  "ensure_within_bundle plain_host ''/work/b'' ''/work/b/main.py'' = Inr ''/work/b/main.py''
   \<and> ensure_within_bundle plain_host ''/work/b'' ''/work/bb/main.py'' = Inl outside_bundle
   \<and> ensure_within_bundle linked_host ''/work/b'' ''/host/data'' = Inr ''/host/data''
   \<and> ensure_within_bundle linked_host ''/work/b'' ''/etc/passwd'' = Inr ''/host/etc/passwd''
   \<and> ensure_within_bundle linked_host ''/work/b'' ''/link'' = Inl outside_bundle"
  using ensure_within_bundle_decision [of plain_host "''/work/b''" "''/work/b/main.py''"]
    ensure_within_bundle_decision [of plain_host "''/work/b''" "''/work/bb/main.py''"]
    ensure_within_bundle_decision [of linked_host "''/work/b''" "''/host/data''"]
    ensure_within_bundle_decision [of linked_host "''/work/b''" "''/etc/passwd''"]
    ensure_within_bundle_decision [of linked_host "''/work/b''" "''/link''"]
  by (simp add: plain_host_def linked_host_def equal_or_descendant_def host_root_def
      translate_def startswith_def endswith_def os_sep_def path_join_def Let_def)

text \<open>
  C8 as stated fails when a host root is configured: the entry file
  \<^verbatim>\<open>/host/evil.py\<close> is neither the bundle directory \<^verbatim>\<open>/work/b\<close> nor below it,
  yet the check passes and the module is loaded.
\<close>

theorem entry_outside_bundle_counterexample:
  "\<not> equal_or_descendant (realpath linked_host (directory sample_payload))
        (realpath linked_host (entryFile sample_payload))
   \<and> execute_start_prepare linked_host sample_collaborators sample_payload =
       ([Chdir ''/work/b'', SetupFilesystemGuards ''/work/b'' [], SetupNetworkGuards [],
         EnsureDependencies ''/work/b'', LoadModule ''/host/evil.py''],
        Inr (sample_module, AttributeHandler (Object 2 True)))"
  by (simp add: execute_start_prepare_def ensure_within_bundle_def equal_or_descendant_def
      linked_host_def sample_collaborators_def sample_payload_def startswith_def os_sep_def
      capabilities_of_def or_default_def resolve_handler_def hasattr_def getattr_def
      sample_module_def Let_def)

text \<open>
  C8, amended: if the realpath of \<^verbatim>\<open>entryFile\<close> (as the check resolves it, the
  realpath of the already resolved path) is neither the realpath of the bundle
  directory nor a descendant of it, and no host root is configured or neither that
  path nor its translation lies under the host root, the runtime fails with the
  permission error before any other step: the module is not loaded, the handler not
  called.
\<close>

theorem entry_outside_bundle_fatal:
  "(let E = realpath env (realpath env (entryFile payload));
        R = realpath env (directory payload)
    in \<not> equal_or_descendant R E
       \<and> (case host_root env of
            None \<Rightarrow> True
          | Some H \<Rightarrow> \<not> equal_or_descendant H E \<and> \<not> equal_or_descendant H (translate env H E))
       \<longrightarrow> execute_start_prepare env collab payload = ([], Inl outside_bundle))"
  by (simp add: execute_start_prepare_def ensure_within_bundle_def equal_or_descendant_def
      host_root_def translate_def Let_def split: option.splits)

text \<open>
  The theorem at the entry file \<^verbatim>\<open>/etc/passwd\<close> for the bundle \<^verbatim>\<open>/work/b\<close>, with
  no host root.
\<close>

theorem entry_outside_bundle_fatal_witness:
  "execute_start_prepare plain_host sample_collaborators
       (sample_payload\<lparr>entryFile := ''/etc/passwd''\<rparr>) = ([], Inl outside_bundle)"
  using entry_outside_bundle_fatal [of plain_host "sample_payload\<lparr>entryFile := ''/etc/passwd''\<rparr>"
      sample_collaborators]
  by (simp add: plain_host_def sample_payload_def equal_or_descendant_def host_root_def
      startswith_def os_sep_def Let_def)

section \<open>The filesystem guard without the fs capability\<close>

text \<open>
  Without the capability every wrapped function of \<^verbatim>\<open>os\<close> and \<^verbatim>\<open>shutil\<close>
  raises the permission error before it looks at its arguments, and so does
  \<^verbatim>\<open>open\<close> on a file descriptor; \<^verbatim>\<open>open\<close> on a \<^verbatim>\<open>str\<close> path resolves the
  path first and raises one of the two permission errors.
\<close>

lemma wrapper_denied:
  "wrapper env bundle_dir False name indexes kw_names args kwargs = Inl fs_capability_required"
  by (simp add: wrapper_def)

lemma guarded_call_denied:
  "PStr ''fs'' \<notin> set capabilities \<Longrightarrow> map_of methods name = Some indexes \<Longrightarrow>
   guarded_call methods env bundle_dir capabilities name args kwargs = Inl fs_capability_required"
  by (simp add: guarded_call_def allow_fs_of_def wrapper_def)

lemma guarded_open_fd_denied:
  "guarded_open env bundle_dir False (FdArg fd) args kwargs = Inl fs_capability_required"
  by (simp add: guarded_open_def)

lemma guarded_open_str_denied:
  "guarded_open env bundle_dir False (StrPath p) args kwargs = Inl fs_capability_required
   \<or> guarded_open env bundle_dir False (StrPath p) args kwargs = Inl outside_bundle"
  by (auto simp: guarded_open_def normalize_path_argument_def ensure_within_bundle_def Let_def
      split: option.splits sum.splits)

text \<open>
  C2 at a \<^verbatim>\<open>bytes\<close> path: without the capability, \<^verbatim>\<open>open(b"a.txt")\<close> does not
  call the original \<^verbatim>\<open>open\<close>, but it raises \<^verbatim>\<open>TypeError\<close>, not a permission
  error, because the path is normalized before the capability is tested.
\<close>

theorem guarded_open_bytes_path:
  "guarded_open env bundle_dir False (BytesPath ''a.txt'') args kwargs =
     Inl (TypeError (''Can'' @ [CHR 0x27] @ ''t mix strings and bytes in path components''))"
  by (simp add: guarded_open_def normalize_path_argument_def path_isabs_def startswith_def
      os_sep_def)

section \<open>Handler resolution\<close>

text \<open>
  C10: if \<^verbatim>\<open>exportName\<close> is a non-empty string and the module has an attribute of
  that name that is not callable, resolution fails with
  \<^verbatim>\<open>Bundle entry did not export a callable handler\<close>, whatever else the module
  offers (a callable \<^verbatim>\<open>handler\<close>, a callable module, a callable \<^verbatim>\<open>default\<close>).
\<close>

theorem export_name_not_callable:
  "name \<noteq> [] \<and> map_of (attributes module) name = Some obj \<and> \<not> callable_object obj \<longrightarrow>
     resolve_handler (PStr name) module =
       Inl (RuntimeError ''Bundle entry did not export a callable handler'')"
  by (simp add: resolve_handler_def hasattr_def getattr_def Let_def)

text \<open>
  The theorem on a callable module that has a callable \<^verbatim>\<open>handler\<close> and a callable
  \<^verbatim>\<open>default\<close> beside the attribute named by \<^verbatim>\<open>exportName\<close>.
\<close>

theorem export_name_not_callable_witness:
  "resolve_handler (PStr ''main'') sample_module =
     Inl (RuntimeError ''Bundle entry did not export a callable handler'')"
  using export_name_not_callable [of "''main''" sample_module "Object 1 False"]
  by (simp add: sample_module_def)

end
